theory Spec2Isabelle
  imports Main
begin

text \<open>
  The orchestration core of the ReqRes task register, a browser client of a hosted
  record service: the transport client and the record calls of \<open>api.ts\<close>, and the session
  store, the session check, the configuration warnings and the toggle and delete handlers
  of \<open>App.tsx\<close>. Each function of the source is a function here, under its own name;
  state it reads or writes (client-local storage, React state, the requests given to
  \<open>fetch\<close>) is passed in and returned.
\<close>

section \<open>JavaScript values\<close>

text \<open>
  The values the program handles at run time: what \<open>JSON.parse\<close> returns, what a
  property read returns, what sits in React state. \<open>VUndefined\<close> is JavaScript's
  \<open>undefined\<close>. Numbers are modelled as integers: the program's numbers are project
  identifiers, page numbers, counts and HTTP statuses.
\<close>

datatype jsval =
    VUndefined
  | VNull
  | VBool bool
  | VNum int
  | VStr string
  | VArr "jsval list"
  | VObj "(string \<times> jsval) list"

text \<open>
  A property read \<open>v.k\<close> or \<open>v?.k\<close>. The program only reads the properties
  \<open>session\<close>, \<open>token\<close>, \<open>baseUrl\<close>, \<open>projectId\<close>, \<open>error\<close>, \<open>message\<close>,
  \<open>data\<close>, \<open>meta\<close>, \<open>title\<close>, \<open>notes\<close>, \<open>completed\<close> and the fields of the declared
  reply types, none of which exists on a primitive or an array, so every read off a
  value that is not an object yields \<open>undefined\<close>. The plain read \<open>v.k\<close> throws on
  \<open>null\<close> and \<open>undefined\<close>; each use below says why its receiver is neither.
\<close>

fun js_get :: "jsval \<Rightarrow> string \<Rightarrow> jsval" where
  "js_get (VObj kvs) k = (case map_of kvs k of Some v \<Rightarrow> v | None \<Rightarrow> VUndefined)"
| "js_get v k = VUndefined"

text \<open>JavaScript's truthiness, as \<open>!v\<close>, \<open>v && w\<close>, \<open>v || w\<close> and \<open>Boolean(v)\<close> read it.\<close>

fun truthy :: "jsval \<Rightarrow> bool" where
  "truthy VUndefined = False"
| "truthy VNull = False"
| "truthy (VBool b) = b"
| "truthy (VNum n) = (n \<noteq> 0)"
| "truthy (VStr s) = (s \<noteq> [])"
| "truthy (VArr xs) = True"
| "truthy (VObj kvs) = True"

text \<open>\<open>a ?? b\<close>\<close>

definition nullish :: "jsval \<Rightarrow> jsval \<Rightarrow> jsval" where
  "nullish a b = (if a = VUndefined \<or> a = VNull then b else a)"

text \<open>\<open>typeof v === "object"\<close>: true of \<open>null\<close>, arrays and objects.\<close>

fun typeof_object :: "jsval \<Rightarrow> bool" where
  "typeof_object VNull = True"
| "typeof_object (VArr xs) = True"
| "typeof_object (VObj kvs) = True"
| "typeof_object v = False"

text \<open>
  A string as \<open>JSON.parse\<close> sees it. The program never inspects the characters of a
  storage item or of a response body: it tests the string for emptiness and hands it to
  \<open>JSON.parse\<close>. So a string is modelled by that outcome: the empty string, a non-empty
  string on which \<open>JSON.parse\<close> throws (kept, since the transport client falls back to the
  raw text), or a non-empty string that parses to a value. \<open>JSON.stringify v\<close> of an
  object \<open>v\<close> built from strings and finite numbers is \<open>Document v\<close>: it is not empty
  and \<open>JSON.parse\<close> returns \<open>v\<close> from it.
\<close>

datatype raw_text = EmptyText | Malformed string | Document jsval

text \<open>\<open>value.replace(/\/$/, "")\<close>: one trailing slash is removed.\<close>

definition strip_slash :: "string \<Rightarrow> string" where
  "strip_slash s = (if s \<noteq> [] \<and> last s = CHR ''/'' then butlast s else s)"

section \<open>Configuration (config.ts)\<close>

record DemoConfig =
  baseUrl :: string
  projectId :: "int option"
  publicProjectKey :: string
  manageProjectKey :: string
  collectionSlug :: string

text \<open>\<open>!config.projectId\<close> is true of \<open>null\<close> and of \<open>0\<close>.\<close>

definition truthy_id :: "int option \<Rightarrow> bool" where
  "truthy_id p = (case p of None \<Rightarrow> False | Some n \<Rightarrow> n \<noteq> 0)"

section \<open>Transport client (api.ts)\<close>

text \<open>\<open>require?: 'public' | 'manage' | 'session'\<close>\<close>

datatype credential = Public | Manage | SessionToken

text \<open>
  \<open>RequestOptions\<close>. Of the \<open>RequestInit\<close> part the callers set \<open>method\<close> only;
  \<open>headers\<close> is \<open>init.headers\<close>, the empty map when it is \<open>undefined\<close>. An absent
  \<open>token\<close> is \<open>None\<close>, an absent \<open>body\<close> is \<open>VUndefined\<close>, an absent flag is \<open>False\<close>.
\<close>

record RequestOptions =
  http_method :: "string option"
  headers :: "string \<rightharpoonup> string"
  token :: "string option"
  usePublicProjectKey :: bool
  useManageProjectKey :: bool
  body :: jsval
  require :: "credential option"

text \<open>
  What \<open>fetch\<close> is called with. The body is the string itself when the caller passed
  a string, and \<open>JSON.stringify(body)\<close> otherwise, kept as the value it encodes.
\<close>

datatype payload = Verbatim string | Json jsval

record Request =
  url :: string
  http_method :: "string option"
  headers :: "string \<rightharpoonup> string"
  body :: "payload option"

record Response =
  status :: int
  statusText :: string
  body_text :: raw_text

text \<open>\<open>response.ok\<close>: the status is in the range 200 to 299.\<close>

definition Response_ok :: "Response \<Rightarrow> bool" where
  "Response_ok r = (200 \<le> status r \<and> status r \<le> 299)"

text \<open>
  What \<open>jsonRequest\<close> throws. \<open>ApiError message status details\<close> holds the arguments
  of \<open>new ApiError(message, status, details)\<close>; the message is kept as the value the
  code passes (the constructor of \<open>Error\<close> stores its string conversion).
  \<open>FetchRejected\<close> is a \<open>fetch\<close> that rejects, which \<open>jsonRequest\<close> lets through.
\<close>

datatype failure = ApiError jsval "int option" jsval | FetchRejected

text \<open>
  The network: what \<open>fetch\<close> answers to a request, given the requests sent before it
  (\<open>None\<close>: the promise rejects).
\<close>

type_synonym network = "Request list \<Rightarrow> Request \<Rightarrow> Response option"

text \<open>
  \<open>jsonRequest\<close> is modelled in the order of its text: the headers and the credential
  checks (lines 40 to 67), the \<open>RequestInit\<close> (lines 69 to 72), the call of \<open>fetch\<close>, and
  the reading of the response (lines 75 to 95).
\<close>

text \<open>The constant \<open>url\<close> of \<open>jsonRequest\<close>.\<close>

definition request_url :: "DemoConfig \<Rightarrow> string \<Rightarrow> string" where
  "request_url config path =
     (let base = strip_slash (if baseUrl config \<noteq> [] then baseUrl config else ''https://reqres.in'')
      in base @ (if path \<noteq> [] \<and> hd path = CHR ''/'' then path else CHR ''/'' # path))"

text \<open>
  The headers, or the \<open>ApiError\<close> thrown for a credential that is required and
  missing. \<open>!token\<close> holds of a token left out and of the empty string.
\<close>

definition request_headers :: "DemoConfig \<Rightarrow> RequestOptions \<Rightarrow> failure + (string \<rightharpoonup> string)" where
  "request_headers config options =
     (let tok = (case RequestOptions.token options of None \<Rightarrow> [] | Some t \<Rightarrow> t);
          headers0 =
            [''Accept'' \<mapsto> ''application/json'']
            ++ (if RequestOptions.body options \<noteq> VUndefined
                then [''Content-Type'' \<mapsto> ''application/json''] else Map.empty)
            ++ RequestOptions.headers options
      in if require options = Some SessionToken \<and> tok = []
         then Inl (ApiError (VStr ''Access is required for this action.'') None VUndefined)
         else
           let headers1 =
                 (if require options = Some SessionToken
                  then headers0(''Authorization'' \<mapsto> ''Bearer '' @ tok) else headers0)
           in if require options = Some Public \<and> publicProjectKey config = []
              then Inl (ApiError (VStr ''Public access key is missing.'') None VUndefined)
              else
                let headers2 =
                      (if require options = Some Public
                       then headers1(''x-api-key'' \<mapsto> publicProjectKey config)
                       else if usePublicProjectKey options \<and> publicProjectKey config \<noteq> []
                       then headers1(''x-api-key'' \<mapsto> publicProjectKey config)
                       else headers1)
                in if require options = Some Manage \<and> manageProjectKey config = []
                   then Inl (ApiError (VStr ''Management access key is missing.'') None VUndefined)
                   else
                     Inr (if require options = Some Manage
                          then headers2(''x-api-key'' \<mapsto> manageProjectKey config)
                          else if useManageProjectKey options \<and> manageProjectKey config \<noteq> []
                          then headers2(''x-api-key'' \<mapsto> manageProjectKey config)
                          else headers2))"

text \<open>\<open>requestInit\<close>, with the URL \<open>fetch\<close> is given beside it.\<close>

definition request_init :: "DemoConfig \<Rightarrow> string \<Rightarrow> RequestOptions \<Rightarrow> (string \<rightharpoonup> string) \<Rightarrow> Request" where
  "request_init config path options hs =
     \<lparr>url = request_url config path,
      Request.http_method = RequestOptions.http_method options,
      Request.headers = hs,
      Request.body =
        (if RequestOptions.body options \<noteq> VUndefined \<and> RequestOptions.body options \<noteq> VNull
         then Some (case RequestOptions.body options of VStr b \<Rightarrow> Verbatim b | b \<Rightarrow> Json b)
         else None)\<rparr>"

text \<open>
  The message of the error for a response that is not ok:
  \<open>(typeof data === 'object' && data?.error) || (typeof data === 'object' && data?.message)
  || response.statusText || 'Request failed'\<close>.
\<close>

definition error_message :: "jsval \<Rightarrow> string \<Rightarrow> jsval" where
  "error_message dat stext =
     (let e = (if typeof_object dat then js_get dat ''error'' else VBool False);
          m = (if typeof_object dat then js_get dat ''message'' else VBool False)
      in if truthy e then e
         else if truthy m then m
         else if stext \<noteq> [] then VStr stext
         else VStr ''Request failed'')"

text \<open>\<open>data\<close>: \<open>null\<close> for an empty body, the parsed value, or the raw text where parsing throws.\<close>

definition response_data :: "Response \<Rightarrow> jsval" where
  "response_data response =
     (case body_text response of
        EmptyText \<Rightarrow> VNull
      | Malformed t \<Rightarrow> VStr t
      | Document v \<Rightarrow> v)"

definition read_response :: "Response \<Rightarrow> failure + jsval" where
  "read_response response =
     (let dat = response_data response
      in if \<not> Response_ok response
         then Inl (ApiError (error_message dat (statusText response)) (Some (status response)) dat)
         else Inr (nullish dat (VObj [])))"

text \<open>
  \<open>jsonRequest\<close>, threading the list of requests handed to \<open>fetch\<close> so far. A request
  that fails on a missing credential leaves the list as it was.
\<close>

definition jsonRequest ::
  "network \<Rightarrow> DemoConfig \<Rightarrow> string \<Rightarrow> RequestOptions \<Rightarrow> Request list
     \<Rightarrow> (failure + jsval) \<times> Request list" where
  "jsonRequest fetch config path options reqs =
     (case request_headers config options of
        Inl e \<Rightarrow> (Inl e, reqs)
      | Inr hs \<Rightarrow>
          let requestInit = request_init config path options hs
          in (case fetch reqs requestInit of
                None \<Rightarrow> (Inl FetchRejected, reqs @ [requestInit])
              | Some response \<Rightarrow> (read_response response, reqs @ [requestInit])))"

section \<open>Record calls (api.ts)\<close>

text \<open>
  Strings are byte strings. \<open>String_of_int n\<close> is the template literal \<open>`${n}`\<close> of an
  integer; \<open>encodeURIComponent\<close> keeps the unreserved characters and writes every other
  byte as \<open>%XX\<close>.
\<close>

function decimal :: "nat \<Rightarrow> string" where
  "decimal n =
     (if n < 10 then [''0123456789'' ! n]
      else decimal (n div 10) @ [''0123456789'' ! (n mod 10)])"
  by pat_completeness auto
termination
  by (relation "measure (\<lambda>n. n)") auto

declare decimal.simps [simp del]

definition String_of_int :: "int \<Rightarrow> string" where
  "String_of_int i = (if i < 0 then CHR ''-'' # decimal (nat (- i)) else decimal (nat i))"

definition unreserved :: "char \<Rightarrow> bool" where
  "unreserved c =
     (c \<in> set ''ABCDEFGHIJKLMNOPQRSTUVWXYZabcdefghijklmnopqrstuvwxyz0123456789-_.!~*()''
      \<or> c = CHR 0x27)"

definition percent_encoded :: "char \<Rightarrow> string" where
  "percent_encoded c =
     [CHR ''%'', ''0123456789ABCDEF'' ! (of_char c div 16), ''0123456789ABCDEF'' ! (of_char c mod 16)]"

definition encodeURIComponent :: "string \<Rightarrow> string" where
  "encodeURIComponent s = concat (map (\<lambda>c. if unreserved c then [c] else percent_encoded c) s)"

text \<open>\<open>TodoPayload\<close>; \<open>todo_notes\<close> is its field \<open>notes\<close>.\<close>

record TodoPayload =
  title :: string
  todo_notes :: string
  completed :: bool

text \<open>\<open>TodoItem\<close>; \<open>item_id\<close> is its field \<open>id\<close>, and \<open>data\<close> is an object with any fields.\<close>

record TodoItem =
  item_id :: string
  data :: jsval
  created_at :: string
  updated_at :: string
  app_user_id :: "string option"

text \<open>The options of \<open>fetchTodos\<close>: \<open>None\<close> is a property left out.\<close>

record ListOptions =
  page :: "int option"
  limit :: "int option"
  order :: "string option"

record PaginationMeta =
  page :: int
  limit :: int
  total :: int
  pages :: int

record PaginatedTodos =
  data :: "TodoItem list"
  meta :: PaginationMeta

text \<open>
  The replies are cast to their declared types unchecked (\<open>jsonRequest<T>\<close>). The model
  reads the declared fields off the reply; where a field does not have its declared type
  it takes the empty string, the empty list or the fallback number, so the theorems
  below say nothing about what the program does with an ill-typed reply.
\<close>

definition as_string :: "jsval \<Rightarrow> string" where
  "as_string v = (case v of VStr s \<Rightarrow> s | _ \<Rightarrow> [])"

definition as_number :: "jsval \<Rightarrow> int \<Rightarrow> int" where
  "as_number v d = (case v of VNum n \<Rightarrow> n | _ \<Rightarrow> d)"

definition as_TodoItem :: "jsval \<Rightarrow> TodoItem" where
  "as_TodoItem v =
     \<lparr>item_id = as_string (js_get v ''id''),
      TodoItem.data = js_get v ''data'',
      created_at = as_string (js_get v ''created_at''),
      updated_at = as_string (js_get v ''updated_at''),
      app_user_id = (case js_get v ''app_user_id'' of VStr s \<Rightarrow> Some s | _ \<Rightarrow> None)\<rparr>"

definition TodoPayload_value :: "TodoPayload \<Rightarrow> jsval" where
  "TodoPayload_value p =
     VObj [(''title'', VStr (title p)), (''notes'', VStr (todo_notes p)),
           (''completed'', VBool (completed p))]"

text \<open>The options every record call passes to \<open>jsonRequest\<close>.\<close>

definition session_call :: "string \<Rightarrow> string \<Rightarrow> jsval \<Rightarrow> RequestOptions" where
  "session_call m sessionToken b =
     \<lparr>RequestOptions.http_method = Some m, RequestOptions.headers = Map.empty,
      RequestOptions.token = Some sessionToken,
      usePublicProjectKey = False, useManageProjectKey = False,
      RequestOptions.body = b, require = Some SessionToken\<rparr>"

text \<open>
  \<open>fetchTodos\<close>, lines 254 to 257: \<open>Number(opts.page) || 1\<close> is \<open>1\<close> for a page left
  out (\<open>NaN\<close>) and for \<open>0\<close>, and likewise \<open>Number(opts.limit) || 10\<close>.
\<close>

definition fetchTodos_page :: "ListOptions \<Rightarrow> int" where
  "fetchTodos_page opts =
     max 1 (case ListOptions.page opts of None \<Rightarrow> 1 | Some n \<Rightarrow> if n \<noteq> 0 then n else 1)"

definition fetchTodos_limit :: "ListOptions \<Rightarrow> int" where
  "fetchTodos_limit opts =
     (let rawLimit = (case ListOptions.limit opts of None \<Rightarrow> 10
                      | Some n \<Rightarrow> if n \<noteq> 0 then n else 10)
      in min (max rawLimit 1) 100)"

definition fetchTodos_order :: "ListOptions \<Rightarrow> string" where
  "fetchTodos_order opts = (if order opts = Some ''asc'' then ''asc'' else ''desc'')"

definition records_path :: "string \<Rightarrow> string" where
  "records_path slug = ''/app/collections/'' @ encodeURIComponent slug @ ''/records''"

definition list_path :: "string \<Rightarrow> string \<Rightarrow> int \<Rightarrow> int \<Rightarrow> string" where
  "list_path slug ord lim pg =
     records_path slug @ ''?order='' @ ord @ ''&limit='' @ String_of_int lim
       @ ''&page='' @ String_of_int pg"

definition record_path :: "string \<Rightarrow> string \<Rightarrow> string" where
  "record_path slug todoId = records_path slug @ ''/'' @ encodeURIComponent todoId"

text \<open>\<open>Math.ceil(a / b)\<close> for integers \<open>a\<close> and \<open>b > 0\<close>.\<close>

definition ceil_div :: "int \<Rightarrow> int \<Rightarrow> int" where
  "ceil_div a b = - ((- a) div b)"

definition fetchTodos ::
  "network \<Rightarrow> DemoConfig \<Rightarrow> string \<Rightarrow> ListOptions \<Rightarrow> Request list
     \<Rightarrow> (failure + PaginatedTodos) \<times> Request list" where
  "fetchTodos fetch config sessionToken opts sent =
     (if collectionSlug config = []
      then (Inl (ApiError (VStr ''Task register is not configured.'') None VUndefined), sent)
      else
        let pg = fetchTodos_page opts;
            lim = fetchTodos_limit opts;
            ord = fetchTodos_order opts
        in (case jsonRequest fetch config (list_path (collectionSlug config) ord lim pg)
                   (session_call ''GET'' sessionToken VUndefined) sent of
              (Inl e, sent') \<Rightarrow> (Inl e, sent')
            | (Inr res, sent') \<Rightarrow>
                let rows = (if truthy (js_get res ''data'') then js_get res ''data'' else VArr []);
                    n = (case rows of VArr xs \<Rightarrow> int (length xs) | _ \<Rightarrow> 0);
                    fallbackMeta =
                      \<lparr>PaginationMeta.page = pg, PaginationMeta.limit = lim, total = n,
                       pages = max 1 (ceil_div (if n \<noteq> 0 then n else 1) lim)\<rparr>;
                    m = js_get res ''meta''
                in (Inr \<lparr>PaginatedTodos.data =
                           (case rows of VArr xs \<Rightarrow> map as_TodoItem xs | _ \<Rightarrow> []),
                         meta =
                           (if truthy m
                            then \<lparr>PaginationMeta.page = as_number (js_get m ''page'') pg,
                                  PaginationMeta.limit = as_number (js_get m ''limit'') lim,
                                  total = as_number (js_get m ''total'') (total fallbackMeta),
                                  pages = as_number (js_get m ''pages'') (pages fallbackMeta)\<rparr>
                            else fallbackMeta)\<rparr>,
                    sent')))"

definition updateTodo ::
  "network \<Rightarrow> DemoConfig \<Rightarrow> string \<Rightarrow> string \<Rightarrow> TodoPayload \<Rightarrow> Request list
     \<Rightarrow> (failure + TodoItem) \<times> Request list" where
  "updateTodo fetch config sessionToken todoId todo sent =
     (if collectionSlug config = []
      then (Inl (ApiError (VStr ''Task register is not configured.'') None VUndefined), sent)
      else (case jsonRequest fetch config (record_path (collectionSlug config) todoId)
                   (session_call ''PUT'' sessionToken (VObj [(''data'', TodoPayload_value todo)]))
                   sent of
              (Inl e, sent') \<Rightarrow> (Inl e, sent')
            | (Inr res, sent') \<Rightarrow> (Inr (as_TodoItem (js_get res ''data'')), sent')))"

definition deleteTodo ::
  "network \<Rightarrow> DemoConfig \<Rightarrow> string \<Rightarrow> string \<Rightarrow> Request list
     \<Rightarrow> (failure + unit) \<times> Request list" where
  "deleteTodo fetch config sessionToken todoId sent =
     (if collectionSlug config = []
      then (Inl (ApiError (VStr ''Task register is not configured.'') None VUndefined), sent)
      else (case jsonRequest fetch config (record_path (collectionSlug config) todoId)
                   (session_call ''DELETE'' sessionToken VUndefined) sent of
              (Inl e, sent') \<Rightarrow> (Inl e, sent')
            | (Inr res, sent') \<Rightarrow> (Inr (), sent')))"

section \<open>Session store (App.tsx)\<close>

record Session =
  token :: string
  expiresAt :: string
  projectId :: int
  email :: string

text \<open>
  Client-local storage, as far as the program uses it: the one item under
  \<open>SESSION_STORAGE_KEY\<close>. \<open>NoStorage\<close> is \<open>typeof localStorage === "undefined"\<close>;
  \<open>Storage None\<close> is a store whose \<open>getItem\<close> returns \<open>null\<close>.
\<close>

datatype localStorage = NoStorage | Storage "raw_text option"

text \<open>
  \<open>normalizeBaseUrl\<close> reads the module constant \<open>envConfig\<close>; the model takes it as
  its first argument.
\<close>

definition normalizeBaseUrl :: "DemoConfig \<Rightarrow> string \<Rightarrow> string" where
  "normalizeBaseUrl envConfig v =
     strip_slash (if v \<noteq> [] then v
                  else if baseUrl envConfig \<noteq> [] then baseUrl envConfig else [])"

text \<open>
  \<open>loadStoredSession\<close> returns the session (\<open>None\<close> for \<open>null\<close>) and the store it
  leaves behind. The body runs inside \<open>try { ... } catch { return null }\<close>; the one
  statement that can throw is \<open>JSON.parse(raw)\<close>, on \<open>Malformed\<close> text. After
  \<open>if (!stored?.session?.token) return null\<close> the value \<open>stored\<close> is an object, so the
  plain reads \<open>stored.baseUrl\<close>, \<open>stored.projectId\<close> and \<open>stored.session\<close> do not throw.
  The two operands of \<open>!stored.baseUrl || stored.baseUrl !== expectedBaseUrl\<close> are
  tested one after the other, as \<open>||\<close> evaluates them; both lead to the same branch.
  The value returned is the parsed object itself, cast to \<open>Session\<close> unchecked.
\<close>

definition loadStoredSession ::
  "DemoConfig \<Rightarrow> DemoConfig \<Rightarrow> localStorage \<Rightarrow> jsval option \<times> localStorage" where
  "loadStoredSession envConfig config ls =
     (case ls of
        NoStorage \<Rightarrow> (None, ls)
      | Storage raw \<Rightarrow>
          (case raw of
             None \<Rightarrow> (None, ls)
           | Some EmptyText \<Rightarrow> (None, ls)
           | Some (Malformed s) \<Rightarrow> (None, ls)
           | Some (Document parsed) \<Rightarrow>
               (let stored =
                      (if truthy (js_get parsed ''session'') then parsed
                       else if truthy (js_get parsed ''token'') then
                         VObj [(''session'', parsed),
                               (''baseUrl'', VStr ''''),
                               (''projectId'', nullish (js_get parsed ''projectId'') VNull)]
                       else VNull)
                in if \<not> truthy (js_get (js_get stored ''session'') ''token'') then (None, ls)
                   else
                     let expectedBaseUrl = normalizeBaseUrl envConfig (baseUrl config)
                     in if \<not> truthy (js_get stored ''baseUrl'') then (None, Storage None)
                        else if js_get stored ''baseUrl'' \<noteq> VStr expectedBaseUrl
                        then (None, Storage None)
                        else if truthy_id (DemoConfig.projectId config)
                                \<and> truthy (js_get stored ''projectId'')
                                \<and> map_option VNum (DemoConfig.projectId config)
                                    \<noteq> Some (js_get stored ''projectId'')
                        then (None, Storage None)
                        else (Some (js_get stored ''session''), ls))))"

text \<open>The object literal of \<open>verifyMagicToken\<close>, which is what a \<open>Session\<close> is at run time.\<close>

definition Session_value :: "Session \<Rightarrow> jsval" where
  "Session_value s =
     VObj [(''token'', VStr (token s)),
           (''expiresAt'', VStr (expiresAt s)),
           (''projectId'', VNum (Session.projectId s)),
           (''email'', VStr (email s))]"

text \<open>
  \<open>persistSession\<close>: \<open>session.projectId ?? null\<close> is the number itself for a value of
  type \<open>Session\<close>.
\<close>

definition persistSession :: "DemoConfig \<Rightarrow> Session \<Rightarrow> DemoConfig \<Rightarrow> localStorage \<Rightarrow> localStorage" where
  "persistSession envConfig session config ls =
     (case ls of
        NoStorage \<Rightarrow> ls
      | Storage raw \<Rightarrow>
          Storage (Some (Document (VObj
            [(''session'', Session_value session),
             (''baseUrl'', VStr (normalizeBaseUrl envConfig (baseUrl config))),
             (''projectId'', VNum (Session.projectId session))]))))"

definition hasStoredSessionToken :: "DemoConfig \<Rightarrow> DemoConfig \<Rightarrow> localStorage \<Rightarrow> bool \<times> localStorage" where
  "hasStoredSessionToken envConfig config ls =
     (case loadStoredSession envConfig config ls of
        (None, ls') \<Rightarrow> (False, ls')
      | (Some v, ls') \<Rightarrow> (truthy (js_get v ''token''), ls'))"

text \<open>
  \<open>isSessionExpired\<close>. \<open>new Date(s).getTime()\<close> is the argument \<open>getTime\<close>: the
  time value of the string, \<open>None\<close> for \<open>NaN\<close>. \<open>now\<close> is \<open>Date.now()\<close>. The function
  only compares the two, so its type leaves the type of time values open; JavaScript's
  are whole milliseconds since the epoch, \<open>Date_getTime\<close> and \<open>Date_now\<close> below.
\<close>

definition isSessionExpired ::
  "(string \<Rightarrow> 't option) \<Rightarrow> 't::linorder \<Rightarrow> Session option \<Rightarrow> bool" where
  "isSessionExpired getTime now session =
     (case session of
        None \<Rightarrow> True
      | Some s \<Rightarrow>
          if expiresAt s = [] then True
          else (case getTime (expiresAt s) of
                  None \<Rightarrow> True
                | Some t \<Rightarrow> t \<le> now))"

text \<open>
  JavaScript's clock. A time value is a whole number of milliseconds since the epoch.
  An instant is given here in microseconds since the epoch: \<open>Date.now()\<close> at an instant
  is the millisecond the instant lies in, and \<open>new Date(s).getTime()\<close> is the millisecond
  of the instant the string \<open>s\<close> denotes, the digits below the millisecond dropped
  (\<open>instant s\<close> is that instant, \<open>None\<close> for a string that is not a date).
\<close>

definition Date_now :: "int \<Rightarrow> int" where
  "Date_now instant_now = instant_now div 1000"

definition Date_getTime :: "(string \<Rightarrow> int option) \<Rightarrow> string \<Rightarrow> int option" where
  "Date_getTime instant s = map_option (\<lambda>us. us div 1000) (instant s)"

text \<open>A value of the declared type \<open>Session\<close> (api.ts), with the token the store insists on.\<close>

definition well_formed_session :: "jsval \<Rightarrow> bool" where
  "well_formed_session v =
     (\<exists>t e p m. t \<noteq> [] \<and>
        v = VObj [(''token'', VStr t), (''expiresAt'', VStr e),
                  (''projectId'', VNum p), (''email'', VStr m)])"

section \<open>Configuration warnings (App.tsx)\<close>

definition configWarnings :: "DemoConfig \<Rightarrow> string list" where
  "configWarnings config =
     (if \<not> truthy_id (DemoConfig.projectId config) then [''Add a project ID''] else []) @
     (if publicProjectKey config = [] then [''Add the public project key''] else []) @
     (if manageProjectKey config = [] then [''Add the manage project key''] else []) @
     (if collectionSlug config = [] then [''Set a collection slug''] else [])"

definition configReady :: "DemoConfig \<Rightarrow> bool" where
  "configReady config = (length (configWarnings config) = 0)"

section \<open>State and handlers (App.tsx)\<close>

text \<open>\<open>String.prototype.toLowerCase\<close>, on the letters A to Z.\<close>

definition toLowerCase :: "string \<Rightarrow> string" where
  "toLowerCase s =
     map (\<lambda>c. case map_of (zip ''ABCDEFGHIJKLMNOPQRSTUVWXYZ'' ''abcdefghijklmnopqrstuvwxyz'') c of
                 Some l \<Rightarrow> l | None \<Rightarrow> c) s"

definition normalizeTodo :: "jsval \<Rightarrow> TodoPayload" where
  "normalizeTodo d =
     (let source = nullish d (VObj []);
          completedValue = js_get source ''completed''
      in \<lparr>title = (case js_get source ''title'' of VStr t \<Rightarrow> t | _ \<Rightarrow> []),
          todo_notes = (case js_get source ''notes'' of VStr t \<Rightarrow> t | _ \<Rightarrow> []),
          completed =
            (case completedValue of
               VBool b \<Rightarrow> b
             | VStr t \<Rightarrow> toLowerCase t = ''true''
             | v \<Rightarrow> truthy v)\<rparr>)"

text \<open>
  The React state the handlers read and write, the store, and the requests handed to
  \<open>fetch\<close> so far. A handler reads state through the closure of the render it was
  created in and writes through the setters; in the model it takes that render's state,
  reads from it, and returns the state after its updates. \<open>error\<close> holds what
  \<open>setError\<close> was given, a message of an \<open>ApiError\<close> kept as the value the transport
  client chose. The request log of \<open>trackRequest\<close> is left out: \<open>trackRequest\<close> returns
  what its action returns, throws what it throws, and writes \<open>requestLogs\<close> and
  \<open>requestToast\<close> only.
\<close>

record app =
  session :: "Session option"
  profile :: "jsval option"
  todos :: "TodoItem list"
  todoDrafts :: "string \<rightharpoonup> TodoPayload"
  activeEditId :: "string option"
  todoBusyId :: "string option"
  status :: "string option"
  error :: "jsval option"
  loadingTodos :: bool
  todoMeta :: "PaginationMeta option"
  todoPage :: int
  todoPageSize :: int
  tokenInput :: string
  storage :: localStorage
  sent :: "Request list"

definition DEFAULT_PAGE_SIZE :: int where
  "DEFAULT_PAGE_SIZE = 10"

definition clearSession :: "app \<Rightarrow> app" where
  "clearSession w =
     w\<lparr>session := None, profile := None, todos := [], activeEditId := None,
       todoDrafts := Map.empty, todoMeta := None, todoPage := 1,
       todoPageSize := DEFAULT_PAGE_SIZE, tokenInput := [],
       storage := (case storage w of NoStorage \<Rightarrow> NoStorage | Storage raw \<Rightarrow> Storage None),
       status := Some ''Signed out.''\<rparr>"

text \<open>
  \<open>ensureActiveSession\<close>, with the component's \<open>config\<close>, the clock reading \<open>now\<close> of
  its \<open>Date.now()\<close> and the state. It returns the session (\<open>None\<close> for \<open>null\<close>) and the
  state it leaves.
\<close>

definition ensureActiveSession ::
  "DemoConfig \<Rightarrow> (string \<Rightarrow> 't option) \<Rightarrow> 't::linorder \<Rightarrow> DemoConfig \<Rightarrow> Session option
     \<Rightarrow> string \<Rightarrow> app \<Rightarrow> Session option \<times> app" where
  "ensureActiveSession envConfig getTime now config activeSession missingMessage w =
     (case activeSession of
        None \<Rightarrow> (None, w\<lparr>error := Some (VStr missingMessage)\<rparr>)
      | Some s \<Rightarrow>
          (case hasStoredSessionToken envConfig config (storage w) of
             (False, ls) \<Rightarrow>
               (None, clearSession (w\<lparr>storage := ls,
                                       error := Some (VStr ''Access not active. Request access.'')\<rparr>))
           | (True, ls) \<Rightarrow>
               if isSessionExpired getTime now activeSession
               then (None, clearSession (w\<lparr>storage := ls,
                                         error := Some (VStr ''Access expired. Request access again.'')\<rparr>))
               else (activeSession, w\<lparr>storage := ls\<rparr>)))"

text \<open>What a \<open>catch\<close> block of a handler gives \<open>setError\<close>.\<close>

definition caught_message :: "failure \<Rightarrow> string \<Rightarrow> jsval" where
  "caught_message e fallback = (case e of ApiError m st d \<Rightarrow> m | FetchRejected \<Rightarrow> VStr fallback)"

text \<open>
  \<open>refreshTodos\<close>, with its four parameters given (a caller that leaves one out passes
  the default the source names: \<open>todoPage\<close>, \<open>todoPageSize\<close>, \<open>session\<close>, \<open>config\<close>).
\<close>

definition refreshTodos ::
  "DemoConfig \<Rightarrow> (string \<Rightarrow> 't option) \<Rightarrow> network \<Rightarrow> 't::linorder \<Rightarrow> DemoConfig
     \<Rightarrow> int \<Rightarrow> int \<Rightarrow> Session option \<Rightarrow> DemoConfig \<Rightarrow> app \<Rightarrow> app" where
  "refreshTodos envConfig getTime fetch now config pg lim activeSession activeConfig w =
     (case activeSession of
        None \<Rightarrow> w
      | Some s \<Rightarrow>
          (case ensureActiveSession envConfig getTime now config activeSession
                  ''Access required. Request access.'' w of
             (None, w1) \<Rightarrow> w1
           | (Some readySession, w1) \<Rightarrow>
               let w2 = w1\<lparr>loadingTodos := True, error := None\<rparr>
               in (case fetchTodos fetch activeConfig (token readySession)
                          \<lparr>ListOptions.page = Some pg, ListOptions.limit = Some lim,
                           order = Some ''desc''\<rparr> (sent w2) of
                     (Inr r, sent') \<Rightarrow>
                       w2\<lparr>sent := sent', todos := PaginatedTodos.data r,
                          todoMeta := Some (meta r),
                          todoPage := PaginationMeta.page (meta r),
                          todoPageSize := PaginationMeta.limit (meta r),
                          loadingTodos := False\<rparr>
                   | (Inl e, sent') \<Rightarrow>
                       w2\<lparr>sent := sent',
                          error := Some (caught_message e ''Could not load records.''),
                          loadingTodos := False\<rparr>)))"

text \<open>
  \<open>handleToggleTodo\<close>. \<open>snap\<close> is the state of the render the handler belongs to.
\<close>

definition handleToggleTodo ::
  "DemoConfig \<Rightarrow> (string \<Rightarrow> 't option) \<Rightarrow> network \<Rightarrow> 't::linorder \<Rightarrow> DemoConfig
     \<Rightarrow> TodoItem \<Rightarrow> app \<Rightarrow> app" where
  "handleToggleTodo envConfig getTime fetch now config todo snap =
     (case ensureActiveSession envConfig getTime now config (session snap)
             ''Access required. Request access.'' snap of
        (None, w1) \<Rightarrow> w1
      | (Some activeSession, w1) \<Rightarrow>
          let w2 = w1\<lparr>todoBusyId := Some (item_id todo), error := None, status := None\<rparr>;
              current = normalizeTodo (TodoItem.data todo);
              payload = current\<lparr>completed := \<not> completed current\<rparr>
          in (case updateTodo fetch config (token activeSession) (item_id todo) payload (sent w2) of
                (Inr updated, sent') \<Rightarrow>
                  w2\<lparr>sent := sent',
                     todos := map (\<lambda>item. if item_id item = item_id todo then updated else item)
                                (todos w2),
                     status := Some (if completed payload then ''Record marked complete.''
                                     else ''Record in progress.''),
                     todoBusyId := None\<rparr>
              | (Inl e, sent') \<Rightarrow>
                  w2\<lparr>sent := sent',
                     error := Some (caught_message e ''Could not update record.''),
                     todoBusyId := None\<rparr>))"

text \<open>
  \<open>handleDeleteTodo\<close>. \<open>confirmDelete\<close> is the answer of \<open>window.confirm\<close>; \<open>now\<close> is
  the clock at the handler's own session check and \<open>now'\<close> the clock at the check
  \<open>refreshTodos\<close> makes after the delete call has returned.
\<close>

definition handleDeleteTodo ::
  "DemoConfig \<Rightarrow> (string \<Rightarrow> 't option) \<Rightarrow> network \<Rightarrow> 't::linorder \<Rightarrow> 't \<Rightarrow> DemoConfig
     \<Rightarrow> bool \<Rightarrow> string \<Rightarrow> app \<Rightarrow> app" where
  "handleDeleteTodo envConfig getTime fetch now now' config confirmDelete todoId snap =
     (case ensureActiveSession envConfig getTime now config (session snap)
             ''Access required. Request access.'' snap of
        (None, w1) \<Rightarrow> w1
      | (Some activeSession, w1) \<Rightarrow>
          if \<not> confirmDelete then w1
          else
            let w2 = w1\<lparr>todoBusyId := Some todoId, error := None, status := None\<rparr>
            in (case deleteTodo fetch config (token activeSession) todoId (sent w2) of
                  (Inr u, sent') \<Rightarrow>
                    let nextPage =
                          (case todoMeta snap of
                             None \<Rightarrow> 1
                           | Some m \<Rightarrow>
                               if length (todos snap) \<le> 1 \<and> PaginationMeta.page m > 1
                               then PaginationMeta.page m - 1
                               else if PaginationMeta.page m \<noteq> 0 then PaginationMeta.page m
                               else 1);
                        w3 = (if activeEditId snap = Some todoId
                              then w2\<lparr>sent := sent', activeEditId := None\<rparr>
                              else w2\<lparr>sent := sent'\<rparr>);
                        w4 = refreshTodos envConfig getTime fetch now' config nextPage
                               (todoPageSize snap) (session snap) config w3
                    in w4\<lparr>status := Some ''Record archived.'', todoBusyId := None\<rparr>
                | (Inl e, sent') \<Rightarrow>
                    w2\<lparr>sent := sent',
                       error := Some (caught_message e ''Could not archive record.''),
                       todoBusyId := None\<rparr>))"

text \<open>\<open>handlePageSizeChange\<close>, the handler of the page-size control.\<close>

definition handlePageSizeChange ::
  "DemoConfig \<Rightarrow> (string \<Rightarrow> 't option) \<Rightarrow> network \<Rightarrow> 't::linorder \<Rightarrow> DemoConfig
     \<Rightarrow> int \<Rightarrow> app \<Rightarrow> app" where
  "handlePageSizeChange envConfig getTime fetch now config nextLimit snap =
     (let clamped = min (max nextLimit 1) 100
      in refreshTodos envConfig getTime fetch now config 1 clamped (session snap) config
           (snap\<lparr>todoPage := 1, todoPageSize := clamped\<rparr>))"

section \<open>Concrete inputs\<close>

text \<open>
  A complete configuration, and a session issued under it.
\<close>

definition example_config :: DemoConfig where
  "example_config =
     \<lparr>baseUrl = ''https://reqres.in'', DemoConfig.projectId = Some 1,
      publicProjectKey = ''pub_key'', manageProjectKey = ''manage_key'',
      collectionSlug = ''todos''\<rparr>"

definition example_session :: Session where
  "example_session =
     \<lparr>token = ''tok'', expiresAt = ''2030-01-01T00:00:00.000Z'',
      Session.projectId = 1, email = ''a@b.com''\<rparr>"

text \<open>Networks: one on which every \<open>fetch\<close> rejects, and one that answers every request alike.\<close>

definition refusing_network :: network where
  "refusing_network h r = None"

text \<open>A configuration with no keys, and a call that requires a credential.\<close>

definition example_keyless_config :: DemoConfig where
  "example_keyless_config =
     \<lparr>baseUrl = ''https://reqres.in'', DemoConfig.projectId = Some 1,
      publicProjectKey = [], manageProjectKey = [], collectionSlug = ''todos''\<rparr>"

definition example_call :: "credential \<Rightarrow> string option \<Rightarrow> RequestOptions" where
  "example_call c t =
     \<lparr>RequestOptions.http_method = Some ''GET'', RequestOptions.headers = Map.empty,
      RequestOptions.token = t, usePublicProjectKey = False, useManageProjectKey = False,
      RequestOptions.body = VUndefined, require = Some c\<rparr>"

definition failing_network :: "int \<Rightarrow> string \<Rightarrow> raw_text \<Rightarrow> network" where
  "failing_network code reason b h r = Some \<lparr>Response.status = code, statusText = reason, body_text = b\<rparr>"

text \<open>
  The instants, in microseconds since the epoch, of two date strings one microsecond
  apart, the time values \<open>new Date(s).getTime()\<close> gives for them, and a session that
  expires at the later one.
\<close>

definition example_instant :: "string \<Rightarrow> int option" where
  "example_instant s =
     (if s = ''2030-01-01T00:00:00.000Z'' then Some 1893456000000000
      else if s = ''2030-01-01T00:00:00.000001Z'' then Some 1893456000000001
      else None)"

definition example_getTime :: "string \<Rightarrow> int option" where
  "example_getTime = Date_getTime example_instant"

definition example_late_session :: Session where
  "example_late_session = example_session\<lparr>expiresAt := ''2030-01-01T00:00:00.000001Z''\<rparr>"

text \<open>
  A record with an extension field, and the state of a signed-in user looking at it as
  the only record of page 3 of 3.
\<close>

definition example_todo :: TodoItem where
  "example_todo =
     \<lparr>item_id = ''r1'',
      TodoItem.data = VObj [(''title'', VStr ''Buy milk''), (''notes'', VStr ''''),
                            (''completed'', VBool False), (''priority'', VNum 3)],
      created_at = ''2029-12-01T00:00:00.000Z'',
      updated_at = ''2029-12-01T00:00:00.000Z'',
      app_user_id = Some ''u1''\<rparr>"

definition example_app :: app where
  "example_app =
     \<lparr>session = Some example_session, profile = None,
      todos = [example_todo],
      todoDrafts = Map.empty, activeEditId = None, todoBusyId = None,
      status = None, error = None, loadingTodos = False,
      todoMeta = Some \<lparr>PaginationMeta.page = 3, PaginationMeta.limit = 10, total = 21, pages = 3\<rparr>,
      todoPage = 3, todoPageSize = 10, tokenInput = [],
      storage = persistSession example_config example_session example_config (Storage None),
      sent = []\<rparr>"

definition example_late_app :: app where
  "example_late_app =
     example_app\<lparr>session := Some example_late_session,
       storage := persistSession example_config example_late_session example_config
                    (Storage None)\<rparr>"

text \<open>
  A network that answers every request with \<open>204\<close> and no body, and one that answers with
  the record after its update.
\<close>

definition accepting_network :: network where
  "accepting_network h r = Some \<lparr>Response.status = 204, statusText = ''No Content'', body_text = EmptyText\<rparr>"

definition example_reply :: jsval where
  "example_reply =
     VObj [(''data'',
        VObj [(''id'', VStr ''r1''),
              (''data'', VObj [(''title'', VStr ''Buy milk''), (''notes'', VStr ''''),
                               (''completed'', VBool True)]),
              (''created_at'', VStr ''2029-12-01T00:00:00.000Z''),
              (''updated_at'', VStr ''2029-12-02T09:30:00.000Z''),
              (''app_user_id'', VStr ''u1'')])]"

definition updating_network :: network where
  "updating_network h r =
     Some \<lparr>Response.status = 200, statusText = ''OK'', body_text = Document example_reply\<rparr>"

section \<open>The session store\<close>

lemma js_get_Session_token [simp]: "js_get (Session_value s) ''token'' = VStr (token s)"
  by (simp add: Session_value_def)

lemma truthy_Session_value [simp]: "truthy (Session_value s)"
  by (simp add: Session_value_def)

text \<open>
  When \<open>loadStoredSession\<close> returns a session: exactly on the wrapped shape, with a
  truthy token, under the base URL and the project the configuration expects.
\<close>

lemma loadStoredSession_Some_iff:
  "fst (loadStoredSession env cfg ls) = Some v \<longleftrightarrow>
     (\<exists>d. ls = Storage (Some (Document d))
        \<and> v = js_get d ''session''
        \<and> truthy (js_get v ''token'')
        \<and> normalizeBaseUrl env (baseUrl cfg) \<noteq> []
        \<and> js_get d ''baseUrl'' = VStr (normalizeBaseUrl env (baseUrl cfg))
        \<and> \<not> (truthy_id (DemoConfig.projectId cfg) \<and> truthy (js_get d ''projectId'')
               \<and> map_option VNum (DemoConfig.projectId cfg) \<noteq> Some (js_get d ''projectId'')))"
proof (cases ls)
  case NoStorage
  then show ?thesis by (simp add: loadStoredSession_def)
next
  case (Storage raw)
  show ?thesis
  proof (cases raw)
    case None
    with Storage show ?thesis by (simp add: loadStoredSession_def)
  next
    case (Some r)
    show ?thesis
    proof (cases r)
      case EmptyText
      with Storage Some show ?thesis by (simp add: loadStoredSession_def)
    next
      case (Malformed s)
      with Storage Some show ?thesis by (simp add: loadStoredSession_def)
    next
      case (Document d)
      show ?thesis
      proof (cases "truthy (js_get d ''session'')")
        case True
        with Storage Some Document show ?thesis
          by (auto simp add: loadStoredSession_def Let_def)
      next
        case False
        then have "\<not> truthy (js_get (js_get d ''session'') ''token'')"
          by (cases "js_get d ''session''") auto
        with False Storage Some Document show ?thesis
          by (auto simp add: loadStoredSession_def Let_def)
      qed
    qed
  qed
qed

lemma loadStoredSession_storage:
  "snd (loadStoredSession env cfg ls) = ls \<or> snd (loadStoredSession env cfg ls) = Storage None"
  by (auto simp add: loadStoredSession_def Let_def split: localStorage.splits option.splits raw_text.splits)

lemma persist_then_load:
  "fst (loadStoredSession env' cfg' (persistSession env s cfg (Storage old))) = Some v \<longleftrightarrow>
     v = Session_value s \<and> token s \<noteq> []
     \<and> normalizeBaseUrl env' (baseUrl cfg') \<noteq> []
     \<and> normalizeBaseUrl env (baseUrl cfg) = normalizeBaseUrl env' (baseUrl cfg')
     \<and> \<not> (truthy_id (DemoConfig.projectId cfg') \<and> Session.projectId s \<noteq> 0
            \<and> DemoConfig.projectId cfg' \<noteq> Some (Session.projectId s))"
  unfolding loadStoredSession_Some_iff
  by (cases "DemoConfig.projectId cfg'") (auto simp add: persistSession_def truthy_id_def)

text \<open>
  C3 (as amended). A session with a non-empty token, saved under a configuration whose
  normalized base URL is not empty and whose project id does not contradict the session's
  (one of the two is missing or zero, or they are equal), is returned by a load under the
  same configuration, equal to what was saved and with the store untouched. A load under
  a configuration whose normalized base URL differs returns absent and leaves the store
  empty.
\<close>

theorem save_load_roundtrip:
  assumes "token s \<noteq> []"
  shows "(normalizeBaseUrl env (baseUrl cfg) \<noteq> []
          \<and> (truthy_id (DemoConfig.projectId cfg) \<and> Session.projectId s \<noteq> 0
               \<longrightarrow> DemoConfig.projectId cfg = Some (Session.projectId s))
          \<longrightarrow> loadStoredSession env cfg (persistSession env s cfg (Storage old))
                = (Some (Session_value s), persistSession env s cfg (Storage old)))
       \<and> (normalizeBaseUrl env' (baseUrl cfg') \<noteq> normalizeBaseUrl env (baseUrl cfg)
          \<longrightarrow> loadStoredSession env' cfg' (persistSession env s cfg (Storage old))
                = (None, Storage None))"
proof (intro conjI impI)
  assume h: "normalizeBaseUrl env (baseUrl cfg) \<noteq> []
             \<and> (truthy_id (DemoConfig.projectId cfg) \<and> Session.projectId s \<noteq> 0
                  \<longrightarrow> DemoConfig.projectId cfg = Some (Session.projectId s))"
  with assms show "loadStoredSession env cfg (persistSession env s cfg (Storage old))
        = (Some (Session_value s), persistSession env s cfg (Storage old))"
    by (cases "DemoConfig.projectId cfg")
       (auto simp add: loadStoredSession_def persistSession_def Let_def truthy_id_def)
next
  assume "normalizeBaseUrl env' (baseUrl cfg') \<noteq> normalizeBaseUrl env (baseUrl cfg)"
  with assms show "loadStoredSession env' cfg' (persistSession env s cfg (Storage old))
        = (None, Storage None)"
    by (auto simp add: loadStoredSession_def persistSession_def Let_def)
qed

theorem save_load_roundtrip_witness:
  "loadStoredSession example_config example_config
     (persistSession example_config example_session example_config (Storage None))
   = (Some (Session_value example_session),
      persistSession example_config example_session example_config (Storage None))
   \<and> loadStoredSession example_config (example_config\<lparr>baseUrl := ''http://localhost:8000''\<rparr>)
     (persistSession example_config example_session example_config (Storage None))
   = (None, Storage None)"
proof -
  have t: "token example_session \<noteq> []"
    by (simp add: example_session_def)
  have u: "normalizeBaseUrl example_config (baseUrl example_config) = ''https://reqres.in''"
    by (simp add: normalizeBaseUrl_def strip_slash_def example_config_def)
  have u': "normalizeBaseUrl example_config
              (baseUrl (example_config\<lparr>baseUrl := ''http://localhost:8000''\<rparr>))
            = ''http://localhost:8000''"
    by (simp add: normalizeBaseUrl_def strip_slash_def)
  have p: "DemoConfig.projectId example_config = Some (Session.projectId example_session)"
    by (simp add: example_config_def example_session_def)
  from save_load_roundtrip [OF t, of example_config example_config None example_config
      "example_config\<lparr>baseUrl := ''http://localhost:8000''\<rparr>"]
  show ?thesis
    unfolding u u' using p by simp
qed

text \<open>
  C3 as stated fails: a session issued for project 2, saved under a configuration for
  project 1, is not returned by the next load under that same configuration; the
  project guard of \<open>loadStoredSession\<close> purges it.
\<close>

theorem save_load_roundtrip_counterexample:
  "loadStoredSession example_config example_config
     (persistSession example_config (example_session\<lparr>Session.projectId := 2\<rparr>) example_config
        (Storage None))
   = (None, Storage None)"
  by (simp add: loadStoredSession_def persistSession_def Let_def example_config_def
      example_session_def normalizeBaseUrl_def strip_slash_def truthy_id_def Session_value_def)

text \<open>
  The legacy shape: a bare session object, with a truthy \<open>token\<close> and no truthy
  \<open>session\<close> property. \<open>loadStoredSession\<close> wraps it with the base URL \<open>""\<close>, and
  the test \<open>!stored.baseUrl\<close> then purges it, whatever the configuration.
\<close>

lemma legacy_shape_is_purged:
  assumes "\<not> truthy (js_get d ''session'')" and "truthy (js_get d ''token'')"
  shows "loadStoredSession env cfg (Storage (Some (Document d))) = (None, Storage None)"
  using assms by (simp add: loadStoredSession_def Let_def)

text \<open>
  C4. The claim says a value persisted in the legacy shape is accepted as matching the
  current configuration and returned. On the code it is not: the bare session below,
  stored by the earlier version of the application for project 1, is removed from the
  store and \<open>null\<close> is returned, under the configuration it was issued for.
\<close>

theorem legacy_session_load:
  "loadStoredSession example_config example_config
     (Storage (Some (Document (Session_value example_session))))
   = (None, Storage None)"
  by (simp add: loadStoredSession_def Let_def Session_value_def example_session_def)

text \<open>
  C10 as stated fails: the stored value below has the wrapped shape but its session
  holds a token only. It is returned as it is, and it is not a value of type
  \<open>Session\<close>.
\<close>

theorem load_unchecked_shape_counterexample:
  "fst (loadStoredSession example_config example_config
          (Storage (Some (Document (VObj
             [(''session'', VObj [(''token'', VStr ''tok'')]),
              (''baseUrl'', VStr ''https://reqres.in'')])))))
     = Some (VObj [(''token'', VStr ''tok'')])
   \<and> \<not> well_formed_session (VObj [(''token'', VStr ''tok'')])"
  by (simp add: loadStoredSession_def Let_def example_config_def normalizeBaseUrl_def
      strip_slash_def truthy_id_def well_formed_session_def)

text \<open>
  C10 (as amended). \<open>loadStoredSession\<close> is a total function into \<open>jsval option\<close>:
  the \<open>SyntaxError\<close> of \<open>JSON.parse\<close> is caught and becomes \<open>None\<close>. Where the store is
  unavailable, holds no item, the empty string or malformed JSON, or JSON in which
  neither \<open>session.token\<close> nor a top-level \<open>token\<close> is truthy, it returns absent and
  leaves the store as it was. Whatever it returns has a truthy token; nothing else about
  the returned value is checked.
\<close>

theorem load_absent_or_has_token:
  "(ls = NoStorage \<or> ls = Storage None \<or> ls = Storage (Some EmptyText)
      \<or> ls = Storage (Some (Malformed t))
      \<or> (ls = Storage (Some (Document d))
          \<and> \<not> truthy (js_get (js_get d ''session'') ''token'')
          \<and> \<not> truthy (js_get d ''token''))
     \<longrightarrow> loadStoredSession env cfg ls = (None, ls))
   \<and> (fst (loadStoredSession env cfg ls') = Some v \<longrightarrow> truthy (js_get v ''token''))"
proof (intro conjI impI)
  assume "ls = NoStorage \<or> ls = Storage None \<or> ls = Storage (Some EmptyText)
      \<or> ls = Storage (Some (Malformed t))
      \<or> (ls = Storage (Some (Document d))
          \<and> \<not> truthy (js_get (js_get d ''session'') ''token'')
          \<and> \<not> truthy (js_get d ''token''))"
  then show "loadStoredSession env cfg ls = (None, ls)"
    by (auto simp add: loadStoredSession_def Let_def)
next
  assume "fst (loadStoredSession env cfg ls') = Some v"
  then show "truthy (js_get v ''token'')"
    unfolding loadStoredSession_Some_iff by blast
qed

theorem load_absent_or_has_token_witness:
  "loadStoredSession example_config example_config
       (Storage (Some (Document (VObj [(''session'', VObj [(''email'', VStr ''a@b.com'')])]))))
     = (None, Storage (Some (Document (VObj [(''session'', VObj [(''email'', VStr ''a@b.com'')])]))))
   \<and> fst (loadStoredSession example_config example_config
       (persistSession example_config example_session example_config (Storage None)))
     = Some (Session_value example_session)
   \<and> truthy (js_get (Session_value example_session) ''token'')"
proof -
  let ?d = "VObj [(''session'', VObj [(''email'', VStr ''a@b.com'')])]"
  let ?ls' = "persistSession example_config example_session example_config (Storage None)"
  have r: "fst (loadStoredSession example_config example_config ?ls')
             = Some (Session_value example_session)"
    by (simp add: loadStoredSession_def persistSession_def Let_def example_config_def
        example_session_def normalizeBaseUrl_def strip_slash_def truthy_id_def Session_value_def)
  from load_absent_or_has_token [where ls = "Storage (Some (Document ?d))" and d = ?d
      and env = example_config and cfg = example_config and ls' = ?ls'
      and v = "Session_value example_session"] r
  show ?thesis by simp
qed

section \<open>Configuration warnings\<close>

text \<open>
  C9. An item is absent when JavaScript's \<open>!\<close> holds of it: the empty string for the
  two keys and the slug, \<open>null\<close> or \<open>0\<close> for the project id. Each warning is in the list
  exactly when its item is absent, the list has no repeated entry, \<open>configReady\<close> holds
  exactly when no item is absent, and the list is then empty.
\<close>

theorem config_warnings_name_each_missing_item:
  "(''Add a project ID'' \<in> set (configWarnings c)) = (\<not> truthy_id (DemoConfig.projectId c))
   \<and> (''Add the public project key'' \<in> set (configWarnings c)) = (publicProjectKey c = [])
   \<and> (''Add the manage project key'' \<in> set (configWarnings c)) = (manageProjectKey c = [])
   \<and> (''Set a collection slug'' \<in> set (configWarnings c)) = (collectionSlug c = [])
   \<and> distinct (configWarnings c)
   \<and> configReady c
       = (truthy_id (DemoConfig.projectId c) \<and> publicProjectKey c \<noteq> []
          \<and> manageProjectKey c \<noteq> [] \<and> collectionSlug c \<noteq> [])
   \<and> (configWarnings c = []) = configReady c"
  by (simp add: configWarnings_def configReady_def)

section \<open>The transport client\<close>

lemma jsonRequest_refused:
  "request_headers config options = Inl e \<Longrightarrow>
   jsonRequest fetch config path options reqs = (Inl e, reqs)"
  by (simp add: jsonRequest_def)

lemma jsonRequest_sent:
  "request_headers config options = Inr hs \<Longrightarrow>
   snd (jsonRequest fetch config path options reqs) = reqs @ [request_init config path options hs]"
  by (simp add: jsonRequest_def Let_def split: option.splits)

lemma jsonRequest_answered:
  "request_headers config options = Inr hs \<Longrightarrow>
   fetch reqs (request_init config path options hs) = Some response \<Longrightarrow>
   fst (jsonRequest fetch config path options reqs) = read_response response"
  by (simp add: jsonRequest_def Let_def)

lemma headers_request_init [simp]: "Request.headers (request_init config path options hs) = hs"
  by (simp add: request_init_def)

lemma session_token_missing:
  "require options = Some SessionToken \<Longrightarrow>
   RequestOptions.token options = None \<or> RequestOptions.token options = Some [] \<Longrightarrow>
   request_headers config options
     = Inl (ApiError (VStr ''Access is required for this action.'') None VUndefined)"
  by (auto simp add: request_headers_def Let_def)

lemma public_key_missing:
  "require options = Some Public \<Longrightarrow> publicProjectKey config = [] \<Longrightarrow>
   request_headers config options
     = Inl (ApiError (VStr ''Public access key is missing.'') None VUndefined)"
  by (simp add: request_headers_def Let_def)

lemma manage_key_missing:
  "require options = Some Manage \<Longrightarrow> manageProjectKey config = [] \<Longrightarrow>
   request_headers config options
     = Inl (ApiError (VStr ''Management access key is missing.'') None VUndefined)"
  by (simp add: request_headers_def Let_def)

lemma session_token_attached:
  "require options = Some SessionToken \<Longrightarrow> RequestOptions.token options = Some t \<Longrightarrow> t \<noteq> [] \<Longrightarrow>
   \<exists>hs. request_headers config options = Inr hs \<and> hs ''Authorization'' = Some (''Bearer '' @ t)"
  by (simp add: request_headers_def Let_def)

lemma public_key_attached:
  "require options = Some Public \<Longrightarrow> publicProjectKey config \<noteq> [] \<Longrightarrow>
   \<exists>hs. request_headers config options = Inr hs
      \<and> hs ''x-api-key'' = Some (if useManageProjectKey options \<and> manageProjectKey config \<noteq> []
                               then manageProjectKey config else publicProjectKey config)"
  by (simp add: request_headers_def Let_def)

lemma manage_key_attached:
  "require options = Some Manage \<Longrightarrow> manageProjectKey config \<noteq> [] \<Longrightarrow>
   \<exists>hs. request_headers config options = Inr hs \<and> hs ''x-api-key'' = Some (manageProjectKey config)"
  by (simp add: request_headers_def Let_def)

text \<open>
  C5. A call that requires the session token and has none (left out, or empty), or
  requires the public or the management key where the configuration's is empty, fails
  with the \<open>ApiError\<close> for that credential: whatever the network would answer, and with
  the list of requests handed to \<open>fetch\<close> unchanged. Otherwise the request is handed to
  \<open>fetch\<close> with the header: \<open>Authorization: Bearer <token>\<close> for the session, \<open>x-api-key\<close>
  for a key. The key is the one required, except that a call requiring the public key
  with the flag \<open>useManageProjectKey\<close> set sends the management key when there is one;
  no caller in the repository sets the flag.
\<close>

theorem credential_required_before_sending:
  "(require options = Some SessionToken
       \<and> (RequestOptions.token options = None \<or> RequestOptions.token options = Some [])
     \<longrightarrow> jsonRequest fetch config path options reqs
         = (Inl (ApiError (VStr ''Access is required for this action.'') None VUndefined), reqs))
   \<and> (require options = Some Public \<and> publicProjectKey config = []
     \<longrightarrow> jsonRequest fetch config path options reqs
         = (Inl (ApiError (VStr ''Public access key is missing.'') None VUndefined), reqs))
   \<and> (require options = Some Manage \<and> manageProjectKey config = []
     \<longrightarrow> jsonRequest fetch config path options reqs
         = (Inl (ApiError (VStr ''Management access key is missing.'') None VUndefined), reqs))
   \<and> (require options = Some SessionToken \<and> RequestOptions.token options = Some t \<and> t \<noteq> []
     \<longrightarrow> (\<exists>r. snd (jsonRequest fetch config path options reqs) = reqs @ [r]
              \<and> Request.headers r ''Authorization'' = Some (''Bearer '' @ t)))
   \<and> (require options = Some Public \<and> publicProjectKey config \<noteq> []
     \<longrightarrow> (\<exists>r. snd (jsonRequest fetch config path options reqs) = reqs @ [r]
              \<and> Request.headers r ''x-api-key''
                  = Some (if useManageProjectKey options \<and> manageProjectKey config \<noteq> []
                          then manageProjectKey config else publicProjectKey config)))
   \<and> (require options = Some Manage \<and> manageProjectKey config \<noteq> []
     \<longrightarrow> (\<exists>r. snd (jsonRequest fetch config path options reqs) = reqs @ [r]
              \<and> Request.headers r ''x-api-key'' = Some (manageProjectKey config)))"
proof (intro conjI impI)
  assume "require options = Some SessionToken
       \<and> (RequestOptions.token options = None \<or> RequestOptions.token options = Some [])"
  then show "jsonRequest fetch config path options reqs
         = (Inl (ApiError (VStr ''Access is required for this action.'') None VUndefined), reqs)"
    by (intro jsonRequest_refused session_token_missing) simp_all
next
  assume "require options = Some Public \<and> publicProjectKey config = []"
  then show "jsonRequest fetch config path options reqs
         = (Inl (ApiError (VStr ''Public access key is missing.'') None VUndefined), reqs)"
    by (intro jsonRequest_refused public_key_missing) simp_all
next
  assume "require options = Some Manage \<and> manageProjectKey config = []"
  then show "jsonRequest fetch config path options reqs
         = (Inl (ApiError (VStr ''Management access key is missing.'') None VUndefined), reqs)"
    by (intro jsonRequest_refused manage_key_missing) simp_all
next
  assume "require options = Some SessionToken \<and> RequestOptions.token options = Some t \<and> t \<noteq> []"
  then obtain hs where "request_headers config options = Inr hs"
      and "hs ''Authorization'' = Some (''Bearer '' @ t)"
    using session_token_attached by blast
  then show "\<exists>r. snd (jsonRequest fetch config path options reqs) = reqs @ [r]
              \<and> Request.headers r ''Authorization'' = Some (''Bearer '' @ t)"
    using jsonRequest_sent headers_request_init by metis
next
  assume "require options = Some Public \<and> publicProjectKey config \<noteq> []"
  then obtain hs where "request_headers config options = Inr hs"
      and "hs ''x-api-key'' = Some (if useManageProjectKey options \<and> manageProjectKey config \<noteq> []
                               then manageProjectKey config else publicProjectKey config)"
    using public_key_attached by blast
  then show "\<exists>r. snd (jsonRequest fetch config path options reqs) = reqs @ [r]
              \<and> Request.headers r ''x-api-key''
                  = Some (if useManageProjectKey options \<and> manageProjectKey config \<noteq> []
                          then manageProjectKey config else publicProjectKey config)"
    using jsonRequest_sent headers_request_init by metis
next
  assume "require options = Some Manage \<and> manageProjectKey config \<noteq> []"
  then obtain hs where "request_headers config options = Inr hs"
      and "hs ''x-api-key'' = Some (manageProjectKey config)"
    using manage_key_attached by blast
  then show "\<exists>r. snd (jsonRequest fetch config path options reqs) = reqs @ [r]
              \<and> Request.headers r ''x-api-key'' = Some (manageProjectKey config)"
    using jsonRequest_sent headers_request_init by metis
qed

theorem credential_required_before_sending_witness:
  "jsonRequest refusing_network example_config ''/api/app-users/me''
       (example_call SessionToken (Some [])) []
     = (Inl (ApiError (VStr ''Access is required for this action.'') None VUndefined), [])
   \<and> jsonRequest refusing_network example_keyless_config ''/api/app-users/login''
       (example_call Public None) []
     = (Inl (ApiError (VStr ''Public access key is missing.'') None VUndefined), [])
   \<and> jsonRequest refusing_network example_keyless_config ''/api/app-users/verify''
       (example_call Manage None) []
     = (Inl (ApiError (VStr ''Management access key is missing.'') None VUndefined), [])
   \<and> (\<exists>r. snd (jsonRequest refusing_network example_config ''/api/app-users/me''
                 (example_call SessionToken (Some ''tok'')) []) = [r]
          \<and> Request.headers r ''Authorization'' = Some ''Bearer tok'')
   \<and> (\<exists>r. snd (jsonRequest refusing_network example_config ''/api/app-users/login''
                 (example_call Public None) []) = [r]
          \<and> Request.headers r ''x-api-key'' = Some ''pub_key'')
   \<and> (\<exists>r. snd (jsonRequest refusing_network example_config ''/api/app-users/verify''
                 (example_call Manage None) []) = [r]
          \<and> Request.headers r ''x-api-key'' = Some ''manage_key'')"
proof -
  note a = credential_required_before_sending
    [where fetch = refusing_network and config = example_config
       and path = "''/api/app-users/me''" and reqs = "[]"
       and options = "example_call SessionToken (Some [])"]
  note b = credential_required_before_sending
    [where fetch = refusing_network and config = example_keyless_config
       and path = "''/api/app-users/login''" and reqs = "[]"
       and options = "example_call Public None"]
  note c = credential_required_before_sending
    [where fetch = refusing_network and config = example_keyless_config
       and path = "''/api/app-users/verify''" and reqs = "[]"
       and options = "example_call Manage None"]
  note d = credential_required_before_sending
    [where fetch = refusing_network and config = example_config
       and path = "''/api/app-users/me''" and reqs = "[]" and t = "''tok''"
       and options = "example_call SessionToken (Some ''tok'')"]
  note e = credential_required_before_sending
    [where fetch = refusing_network and config = example_config
       and path = "''/api/app-users/login''" and reqs = "[]"
       and options = "example_call Public None"]
  note f = credential_required_before_sending
    [where fetch = refusing_network and config = example_config
       and path = "''/api/app-users/verify''" and reqs = "[]"
       and options = "example_call Manage None"]
  from a b c d e f show ?thesis
    by (simp add: example_call_def example_config_def example_keyless_config_def)
qed

text \<open>
  C6. A request that was sent and answered with a status outside 200 to 299 fails with
  \<open>ApiError(message, status, data)\<close>, where \<open>status\<close> is the response's, \<open>data\<close> the
  parsed body (the raw text where it does not parse, \<open>null\<close> where it is empty) and
  \<open>message\<close> the first of: the body's \<open>error\<close> field, its \<open>message\<close> field, the status
  text, the string \<open>Request failed\<close>. A field or status text counts when JavaScript's
  \<open>||\<close> takes it: when it is truthy.
\<close>

theorem failed_response_error:
  assumes "request_headers config options = Inr hs"
    and "fetch reqs (request_init config path options hs) = Some response"
    and "\<not> Response_ok response"
  shows "jsonRequest fetch config path options reqs
         = (Inl (ApiError
                  (if typeof_object (response_data response)
                        \<and> truthy (js_get (response_data response) ''error'')
                   then js_get (response_data response) ''error''
                   else if typeof_object (response_data response)
                        \<and> truthy (js_get (response_data response) ''message'')
                   then js_get (response_data response) ''message''
                   else if statusText response \<noteq> [] then VStr (statusText response)
                   else VStr ''Request failed'')
                  (Some (Response.status response))
                  (response_data response)),
            reqs @ [request_init config path options hs])"
proof -
  have "read_response response
        = Inl (ApiError (error_message (response_data response) (statusText response))
                 (Some (Response.status response)) (response_data response))"
    using assms(3) by (simp add: read_response_def Let_def)
  moreover have "error_message (response_data response) (statusText response)
        = (if typeof_object (response_data response)
                \<and> truthy (js_get (response_data response) ''error'')
           then js_get (response_data response) ''error''
           else if typeof_object (response_data response)
                \<and> truthy (js_get (response_data response) ''message'')
           then js_get (response_data response) ''message''
           else if statusText response \<noteq> [] then VStr (statusText response)
           else VStr ''Request failed'')"
    by (simp add: error_message_def Let_def)
  ultimately show ?thesis
    using assms(1,2) by (simp add: jsonRequest_def Let_def)
qed

lemma example_headers:
  "request_headers example_config (example_call Public None)
   = Inr [''Accept'' \<mapsto> ''application/json'', ''x-api-key'' \<mapsto> ''pub_key'']"
  by (simp add: request_headers_def example_call_def example_config_def Let_def)

theorem failed_response_error_witness:
  "fst (jsonRequest
          (failing_network 401 ''Unauthorized''
             (Document (VObj [(''error'', VStr ''Invalid token''), (''message'', VStr ''m'')])))
          example_config ''/api/app-users/login'' (example_call Public None) [])
     = Inl (ApiError (VStr ''Invalid token'') (Some 401)
              (VObj [(''error'', VStr ''Invalid token''), (''message'', VStr ''m'')]))
   \<and> fst (jsonRequest
          (failing_network 400 ''Bad Request'' (Document (VObj [(''message'', VStr ''m'')])))
          example_config ''/api/app-users/login'' (example_call Public None) [])
     = Inl (ApiError (VStr ''m'') (Some 400) (VObj [(''message'', VStr ''m'')]))
   \<and> fst (jsonRequest (failing_network 502 ''Bad Gateway'' (Malformed ''upstream down''))
          example_config ''/api/app-users/login'' (example_call Public None) [])
     = Inl (ApiError (VStr ''Bad Gateway'') (Some 502) (VStr ''upstream down''))
   \<and> fst (jsonRequest (failing_network 500 [] EmptyText)
          example_config ''/api/app-users/login'' (example_call Public None) [])
     = Inl (ApiError (VStr ''Request failed'') (Some 500) VNull)"
proof -
  let ?hs = "[''Accept'' \<mapsto> ''application/json'', ''x-api-key'' \<mapsto> ''pub_key'']"
  let ?r = "request_init example_config ''/api/app-users/login'' (example_call Public None) ?hs"
  have ok: "\<And>code reason b. \<not> (200 \<le> code \<and> code \<le> 299) \<Longrightarrow>
      failing_network code reason b [] ?r = Some \<lparr>Response.status = code, statusText = reason, body_text = b\<rparr>
      \<and> \<not> Response_ok \<lparr>Response.status = code, statusText = reason, body_text = b\<rparr>"
    by (simp add: failing_network_def Response_ok_def)
  note w = failed_response_error [OF example_headers, where reqs = "[]"
      and path = "''/api/app-users/login''"]
  have a: "fst (jsonRequest
          (failing_network 401 ''Unauthorized''
             (Document (VObj [(''error'', VStr ''Invalid token''), (''message'', VStr ''m'')])))
          example_config ''/api/app-users/login'' (example_call Public None) [])
     = Inl (ApiError (VStr ''Invalid token'') (Some 401)
              (VObj [(''error'', VStr ''Invalid token''), (''message'', VStr ''m'')]))"
    using w [where response = "\<lparr>Response.status = 401, statusText = ''Unauthorized'',
        body_text = Document (VObj [(''error'', VStr ''Invalid token''), (''message'', VStr ''m'')])\<rparr>"
        and fetch = "failing_network 401 ''Unauthorized''
             (Document (VObj [(''error'', VStr ''Invalid token''), (''message'', VStr ''m'')]))"]
    by (simp add: failing_network_def Response_ok_def response_data_def)
  have b: "fst (jsonRequest
          (failing_network 400 ''Bad Request'' (Document (VObj [(''message'', VStr ''m'')])))
          example_config ''/api/app-users/login'' (example_call Public None) [])
     = Inl (ApiError (VStr ''m'') (Some 400) (VObj [(''message'', VStr ''m'')]))"
    using w [where response = "\<lparr>Response.status = 400, statusText = ''Bad Request'',
        body_text = Document (VObj [(''message'', VStr ''m'')])\<rparr>"
        and fetch = "failing_network 400 ''Bad Request'' (Document (VObj [(''message'', VStr ''m'')]))"]
    by (simp add: failing_network_def Response_ok_def response_data_def)
  have c: "fst (jsonRequest (failing_network 502 ''Bad Gateway'' (Malformed ''upstream down''))
          example_config ''/api/app-users/login'' (example_call Public None) [])
     = Inl (ApiError (VStr ''Bad Gateway'') (Some 502) (VStr ''upstream down''))"
    using w [where response = "\<lparr>Response.status = 502, statusText = ''Bad Gateway'',
        body_text = Malformed ''upstream down''\<rparr>"
        and fetch = "failing_network 502 ''Bad Gateway'' (Malformed ''upstream down'')"]
    by (simp add: failing_network_def Response_ok_def response_data_def)
  have d: "fst (jsonRequest (failing_network 500 [] EmptyText)
          example_config ''/api/app-users/login'' (example_call Public None) [])
     = Inl (ApiError (VStr ''Request failed'') (Some 500) VNull)"
    using w [where response = "\<lparr>Response.status = 500, statusText = [], body_text = EmptyText\<rparr>"
        and fetch = "failing_network 500 [] EmptyText"]
    by (simp add: failing_network_def Response_ok_def response_data_def)
  from a b c d show ?thesis by simp
qed

section \<open>Listing records\<close>

text \<open>
  C2. The claim says a list call with \<open>pageSize = 0\<close> sends the page size 1. On the
  code it sends 10: \<open>Number(opts.limit) || 10\<close> takes 0 for a page size left out, before
  \<open>Math.max(rawLimit, 1)\<close> can raise it to 1. The request of \<open>fetchTodos\<close> with
  \<open>{page: 0, limit: 0}\<close> asks for \<open>limit=10&page=1\<close>.
\<close>

theorem list_page_size_zero:
  "fetchTodos_limit \<lparr>ListOptions.page = Some 0, ListOptions.limit = Some 0, order = None\<rparr> = 10
   \<and> map url (snd (fetchTodos refusing_network example_config ''tok''
        \<lparr>ListOptions.page = Some 0, ListOptions.limit = Some 0, order = None\<rparr> []))
     = [''https://reqres.in/app/collections/todos/records?order=desc&limit=10&page=1'']"
proof -
  let ?opts = "\<lparr>ListOptions.page = Some 0, ListOptions.limit = Some 0, order = None\<rparr>"
  let ?hs = "[''Accept'' \<mapsto> ''application/json'', ''Authorization'' \<mapsto> ''Bearer tok'']"
  have lim: "fetchTodos_limit ?opts = 10" and pg: "fetchTodos_page ?opts = 1"
    and ord: "fetchTodos_order ?opts = ''desc''"
    by (simp_all add: fetchTodos_limit_def fetchTodos_page_def fetchTodos_order_def)
  have enc: "encodeURIComponent ''todos'' = ''todos''"
    by (simp add: encodeURIComponent_def unreserved_def)
  have dec: "String_of_int 10 = ''10''" "String_of_int 1 = ''1''"
    by (simp_all add: String_of_int_def decimal.simps)
  have path: "list_path ''todos'' ''desc'' 10 1
      = ''/app/collections/todos/records?order=desc&limit=10&page=1''"
    by (simp add: list_path_def records_path_def enc dec)
  have h: "request_headers example_config (session_call ''GET'' ''tok'' VUndefined) = Inr ?hs"
    by (simp add: request_headers_def session_call_def example_config_def Let_def)
  have j: "jsonRequest refusing_network example_config p (session_call ''GET'' ''tok'' VUndefined) []
      = (Inl FetchRejected, [request_init example_config p (session_call ''GET'' ''tok'' VUndefined) ?hs])"
    for p
    by (simp add: jsonRequest_def h refusing_network_def)
  have slug: "collectionSlug example_config = ''todos''"
    by (simp add: example_config_def)
  have u: "url (request_init example_config ''/app/collections/todos/records?order=desc&limit=10&page=1''
             (session_call ''GET'' ''tok'' VUndefined) ?hs)
      = ''https://reqres.in/app/collections/todos/records?order=desc&limit=10&page=1''"
    by (simp add: request_init_def request_url_def example_config_def strip_slash_def)
  have "snd (fetchTodos refusing_network example_config ''tok'' ?opts [])
      = [request_init example_config ''/app/collections/todos/records?order=desc&limit=10&page=1''
           (session_call ''GET'' ''tok'' VUndefined) ?hs]"
    by (simp add: fetchTodos_def slug lim pg ord path j)
  with lim u show ?thesis by simp
qed

text \<open>
  The rest of the clamp holds: a page size of 500 is sent as 100, a page 0 as 1, and
  what is sent is always a page size from 1 to 100 and a page of at least 1.
\<close>

lemma list_clamp_upper_and_page:
  "fetchTodos_limit (opts\<lparr>ListOptions.limit := Some 500\<rparr>) = 100
   \<and> fetchTodos_page (opts\<lparr>ListOptions.page := Some 0\<rparr>) = 1
   \<and> 1 \<le> fetchTodos_limit opts \<and> fetchTodos_limit opts \<le> 100 \<and> 1 \<le> fetchTodos_page opts"
  by (simp add: fetchTodos_limit_def fetchTodos_page_def Let_def)

section \<open>The session check\<close>

lemma hasStoredSessionToken_keeps_store:
  assumes "fst (hasStoredSessionToken env cfg ls)"
  shows "hasStoredSessionToken env cfg ls = (True, ls)"
proof (cases "loadStoredSession env cfg ls")
  case (Pair r ls')
  show ?thesis
  proof (cases r)
    case None
    with Pair assms show ?thesis by (simp add: hasStoredSessionToken_def)
  next
    case (Some v)
    with Pair have "fst (loadStoredSession env cfg ls) = Some v" by simp
    then obtain d where d: "ls = Storage (Some (Document d))" and "v = js_get d ''session''"
        and "truthy (js_get v ''token'')"
      unfolding loadStoredSession_Some_iff by blast
    have "ls' \<noteq> Storage None"
    proof
      assume "ls' = Storage None"
      with Pair Some d show False
        by (simp add: loadStoredSession_def Let_def split: if_splits)
    qed
    with loadStoredSession_storage [of env cfg ls] Pair have "ls' = ls" by simp
    with Pair Some assms show ?thesis by (simp add: hasStoredSessionToken_def)
  qed
qed

lemma ensureActiveSession_passes:
  assumes "fst (hasStoredSessionToken env cfg (storage w))"
    and "\<not> isSessionExpired getTime now (Some s)"
  shows "ensureActiveSession env getTime now cfg (Some s) msg w = (Some s, w)"
  using assms(2) hasStoredSessionToken_keeps_store [OF assms(1)]
  by (simp add: ensureActiveSession_def)

lemma ensureActiveSession_expired:
  assumes "isSessionExpired getTime now (Some s)"
  shows "fst (ensureActiveSession env getTime now cfg (Some s) msg w) = None"
proof (cases "hasStoredSessionToken env cfg (storage w)")
  case (Pair b ls)
  with assms show ?thesis by (cases b) (simp_all add: ensureActiveSession_def)
qed

lemma example_getTime_session:
  "example_getTime (expiresAt example_session) = Some 1893456000000"
  "example_getTime (expiresAt example_late_session) = Some 1893456000000"
  by (simp_all add: example_getTime_def Date_getTime_def example_instant_def
      example_session_def example_late_session_def)

lemma example_app_stored:
  "hasStoredSessionToken example_config example_config (storage example_app)
   = (True, storage example_app)"
  by (simp add: hasStoredSessionToken_def loadStoredSession_def persistSession_def Let_def
      example_app_def example_config_def example_session_def normalizeBaseUrl_def
      strip_slash_def truthy_id_def Session_value_def)

lemma example_late_app_stored:
  "hasStoredSessionToken example_config example_config (storage example_late_app)
   = (True, storage example_late_app)"
  by (simp add: hasStoredSessionToken_def loadStoredSession_def persistSession_def Let_def
      example_late_app_def example_late_session_def example_config_def example_session_def
      normalizeBaseUrl_def strip_slash_def truthy_id_def Session_value_def)

text \<open>
  C1 as stated fails: the session below expires one microsecond after the current
  instant and the store holds it, yet it is expired and the session check returns
  \<open>null\<close>. Both \<open>new Date(expiresAt).getTime()\<close> and \<open>Date.now()\<close> are the millisecond
  1893456000000.
\<close>

theorem expiry_one_microsecond_counterexample:
  "example_instant (expiresAt example_late_session) = Some (1893456000000000 + 1)
   \<and> fst (hasStoredSessionToken example_config example_config (storage example_late_app))
   \<and> isSessionExpired (Date_getTime example_instant) (Date_now 1893456000000000)
        (Some example_late_session)
   \<and> fst (ensureActiveSession example_config (Date_getTime example_instant)
            (Date_now 1893456000000000) example_config (Some example_late_session)
            ''Access required. Request access.'' example_late_app) = None"
proof -
  have i: "example_instant (expiresAt example_late_session) = Some (1893456000000000 + 1)"
    by (simp add: example_instant_def example_late_session_def)
  have x: "isSessionExpired (Date_getTime example_instant) (Date_now 1893456000000000)
             (Some example_late_session)"
    by (simp add: isSessionExpired_def Date_getTime_def Date_now_def i)
  from i x ensureActiveSession_expired [OF x] example_late_app_stored
  show ?thesis by simp
qed

text \<open>
  C1 (as amended). Time values are whole milliseconds. A session whose \<open>expiresAt\<close>
  denotes an instant in the same millisecond as the current instant (the current instant
  itself, or one up to a millisecond later) is expired, and the session check returns
  \<open>null\<close> for it. A session whose \<open>expiresAt\<close> is not empty and denotes an instant in a
  later millisecond than the current one is not expired, and while the store still holds
  a session with a token for the configuration the check returns the session and changes
  nothing.
\<close>

theorem expiry_boundary_milliseconds:
  "(instant (expiresAt s) = Some e \<and> e div 1000 = n div 1000
      \<longrightarrow> isSessionExpired (Date_getTime instant) (Date_now n) (Some s)
          \<and> fst (ensureActiveSession env (Date_getTime instant) (Date_now n) cfg (Some s) msg w)
              = None)
   \<and> (expiresAt s \<noteq> [] \<and> instant (expiresAt s) = Some e \<and> n div 1000 < e div 1000
        \<and> fst (hasStoredSessionToken env cfg (storage w))
      \<longrightarrow> \<not> isSessionExpired (Date_getTime instant) (Date_now n) (Some s)
          \<and> ensureActiveSession env (Date_getTime instant) (Date_now n) cfg (Some s) msg w
              = (Some s, w))"
proof (intro conjI impI)
  assume "instant (expiresAt s) = Some e \<and> e div 1000 = n div 1000"
  then show x: "isSessionExpired (Date_getTime instant) (Date_now n) (Some s)"
    by (simp add: isSessionExpired_def Date_getTime_def Date_now_def)
  then show "fst (ensureActiveSession env (Date_getTime instant) (Date_now n) cfg (Some s) msg w)
              = None"
    by (rule ensureActiveSession_expired)
next
  assume h: "expiresAt s \<noteq> [] \<and> instant (expiresAt s) = Some e \<and> n div 1000 < e div 1000
        \<and> fst (hasStoredSessionToken env cfg (storage w))"
  then show v: "\<not> isSessionExpired (Date_getTime instant) (Date_now n) (Some s)"
    by (simp add: isSessionExpired_def Date_getTime_def Date_now_def not_le)
  from h v show "ensureActiveSession env (Date_getTime instant) (Date_now n) cfg (Some s) msg w
              = (Some s, w)"
    by (simp add: ensureActiveSession_passes)
qed

theorem expiry_boundary_milliseconds_witness:
  "isSessionExpired (Date_getTime example_instant) (Date_now 1893456000000000)
     (Some example_session)
   \<and> fst (ensureActiveSession example_config (Date_getTime example_instant)
            (Date_now 1893456000000000) example_config (Some example_session)
            ''Access required. Request access.'' example_app) = None
   \<and> \<not> isSessionExpired (Date_getTime example_instant) (Date_now 1893455999999000)
         (Some example_session)
   \<and> ensureActiveSession example_config (Date_getTime example_instant)
         (Date_now 1893455999999000) example_config (Some example_session)
         ''Access required. Request access.'' example_app
       = (Some example_session, example_app)"
proof -
  have g: "example_instant (expiresAt example_session) = Some 1893456000000000"
    and n: "expiresAt example_session \<noteq> []"
    by (simp_all add: example_instant_def example_session_def)
  from expiry_boundary_milliseconds [where instant = example_instant and s = example_session
      and e = 1893456000000000 and n = 1893456000000000
      and env = example_config and cfg = example_config
      and msg = "''Access required. Request access.''" and w = example_app]
    expiry_boundary_milliseconds [where instant = example_instant and s = example_session
      and e = 1893456000000000 and n = 1893455999999000
      and env = example_config and cfg = example_config
      and msg = "''Access required. Request access.''" and w = example_app]
    g n example_app_stored
  show ?thesis by simp
qed

section \<open>Record calls and handlers\<close>

lemma url_request_init [simp]: "url (request_init cfg path options hs) = request_url cfg path"
  by (simp add: request_init_def)

lemma method_request_init [simp]:
  "Request.http_method (request_init cfg path (session_call m tok b) hs) = Some m"
  by (simp add: request_init_def session_call_def)

lemma body_request_init_object [simp]:
  "Request.body (request_init cfg path (session_call m tok (VObj kvs)) hs) = Some (Json (VObj kvs))"
  by (simp add: request_init_def session_call_def)

lemma session_call_headers:
  "tok \<noteq> [] \<Longrightarrow> \<exists>hs. request_headers cfg (session_call m tok b) = Inr hs"
  by (simp add: request_headers_def session_call_def Let_def)

lemma session_call_sent:
  assumes "tok \<noteq> []"
  shows "\<exists>hs. snd (jsonRequest fetch cfg path (session_call m tok b) reqs)
           = reqs @ [request_init cfg path (session_call m tok b) hs]"
proof -
  from assms obtain hs where "request_headers cfg (session_call m tok b) = Inr hs"
    using session_call_headers by blast
  then have "snd (jsonRequest fetch cfg path (session_call m tok b) reqs)
           = reqs @ [request_init cfg path (session_call m tok b) hs]"
    by (simp add: jsonRequest_def Let_def split: option.splits)
  then show ?thesis by blast
qed

lemma deleteTodo_sent:
  assumes "collectionSlug cfg \<noteq> []" and "tok \<noteq> []"
  shows "\<exists>hs. snd (deleteTodo fetch cfg tok todoId reqs)
           = reqs @ [request_init cfg (record_path (collectionSlug cfg) todoId)
                       (session_call ''DELETE'' tok VUndefined) hs]"
proof -
  obtain hs where hs: "snd (jsonRequest fetch cfg (record_path (collectionSlug cfg) todoId)
                         (session_call ''DELETE'' tok VUndefined) reqs)
           = reqs @ [request_init cfg (record_path (collectionSlug cfg) todoId)
                       (session_call ''DELETE'' tok VUndefined) hs]"
    using session_call_sent [OF assms(2), where fetch = fetch and cfg = cfg and reqs = reqs
        and path = "record_path (collectionSlug cfg) todoId" and m = "''DELETE''"
        and b = VUndefined]
    by (elim exE)
  obtain a b where ab: "jsonRequest fetch cfg (record_path (collectionSlug cfg) todoId)
                         (session_call ''DELETE'' tok VUndefined) reqs = (a, b)"
    by (cases "jsonRequest fetch cfg (record_path (collectionSlug cfg) todoId)
                 (session_call ''DELETE'' tok VUndefined) reqs")
  with hs assms(1) have "snd (deleteTodo fetch cfg tok todoId reqs)
           = reqs @ [request_init cfg (record_path (collectionSlug cfg) todoId)
                       (session_call ''DELETE'' tok VUndefined) hs]"
    by (cases a) (simp_all add: deleteTodo_def)
  then show ?thesis by blast
qed

lemma updateTodo_sent:
  assumes "collectionSlug cfg \<noteq> []" and "tok \<noteq> []"
  shows "\<exists>hs. snd (updateTodo fetch cfg tok todoId todo reqs)
           = reqs @ [request_init cfg (record_path (collectionSlug cfg) todoId)
                       (session_call ''PUT'' tok (VObj [(''data'', TodoPayload_value todo)])) hs]"
proof -
  let ?opts = "session_call ''PUT'' tok (VObj [(''data'', TodoPayload_value todo)])"
  obtain hs where hs: "snd (jsonRequest fetch cfg (record_path (collectionSlug cfg) todoId) ?opts reqs)
           = reqs @ [request_init cfg (record_path (collectionSlug cfg) todoId) ?opts hs]"
    using session_call_sent [OF assms(2), where fetch = fetch and cfg = cfg and reqs = reqs
        and path = "record_path (collectionSlug cfg) todoId" and m = "''PUT''"
        and b = "VObj [(''data'', TodoPayload_value todo)]"]
    by (elim exE)
  obtain a b where ab: "jsonRequest fetch cfg (record_path (collectionSlug cfg) todoId) ?opts reqs
                        = (a, b)"
    by (cases "jsonRequest fetch cfg (record_path (collectionSlug cfg) todoId) ?opts reqs")
  with hs assms(1) have "snd (updateTodo fetch cfg tok todoId todo reqs)
           = reqs @ [request_init cfg (record_path (collectionSlug cfg) todoId) ?opts hs]"
    by (cases a) (simp_all add: updateTodo_def)
  then show ?thesis by blast
qed

lemma fetchTodos_sent:
  assumes "collectionSlug cfg \<noteq> []" and "tok \<noteq> []"
  shows "\<exists>hs. snd (fetchTodos fetch cfg tok opts reqs)
           = reqs @ [request_init cfg
                       (list_path (collectionSlug cfg) (fetchTodos_order opts)
                          (fetchTodos_limit opts) (fetchTodos_page opts))
                       (session_call ''GET'' tok VUndefined) hs]"
proof -
  let ?path = "list_path (collectionSlug cfg) (fetchTodos_order opts)
                 (fetchTodos_limit opts) (fetchTodos_page opts)"
  let ?opts = "session_call ''GET'' tok VUndefined"
  obtain hs where hs: "snd (jsonRequest fetch cfg ?path ?opts reqs)
           = reqs @ [request_init cfg ?path ?opts hs]"
    using session_call_sent [OF assms(2), where fetch = fetch and cfg = cfg and reqs = reqs
        and path = ?path and m = "''GET''" and b = VUndefined]
    by (elim exE)
  obtain a b where ab: "jsonRequest fetch cfg ?path ?opts reqs = (a, b)"
    by (cases "jsonRequest fetch cfg ?path ?opts reqs")
  with hs assms(1) have "snd (fetchTodos fetch cfg tok opts reqs)
           = reqs @ [request_init cfg ?path ?opts hs]"
    by (cases a) (simp_all add: fetchTodos_def Let_def)
  then show ?thesis by blast
qed

lemma refreshTodos_sent:
  assumes "fst (hasStoredSessionToken env cfg (storage w))"
    and "\<not> isSessionExpired getTime now (Some s)"
  shows "sent (refreshTodos env getTime fetch now cfg pg lim (Some s) acfg w)
         = snd (fetchTodos fetch acfg (token s)
                  \<lparr>ListOptions.page = Some pg, ListOptions.limit = Some lim, order = Some ''desc''\<rparr>
                  (sent w))"
proof -
  let ?opts = "\<lparr>ListOptions.page = Some pg, ListOptions.limit = Some lim, order = Some ''desc''\<rparr>"
  obtain a b where ab: "fetchTodos fetch acfg (token s) ?opts (sent w) = (a, b)"
    by (cases "fetchTodos fetch acfg (token s) ?opts (sent w)")
  then show ?thesis
    by (cases a)
       (simp_all add: refreshTodos_def ensureActiveSession_passes [OF assms] Let_def)
qed

text \<open>
  The page-size control clamps before it calls: \<open>handlePageSizeChange(0)\<close> asks for
  \<open>limit=1\<close>.
\<close>

lemma page_size_change_zero:
  assumes "session snap = Some s" and "token s \<noteq> []" and "collectionSlug cfg \<noteq> []"
    and "fst (hasStoredSessionToken env cfg (storage snap))"
    and "\<not> isSessionExpired getTime now (Some s)"
  shows "map url (sent (handlePageSizeChange env getTime fetch now cfg 0 snap))
         = map url (sent snap) @ [request_url cfg (list_path (collectionSlug cfg) ''desc'' 1 1)]"
proof -
  let ?w = "snap\<lparr>todoPage := 1, todoPageSize := 1\<rparr>"
  let ?opts = "\<lparr>ListOptions.page = Some 1, ListOptions.limit = Some 1, order = Some ''desc''\<rparr>"
  have o: "fetchTodos_page ?opts = 1" "fetchTodos_limit ?opts = 1" "fetchTodos_order ?opts = ''desc''"
    by (simp_all add: fetchTodos_page_def fetchTodos_limit_def fetchTodos_order_def)
  have "sent (handlePageSizeChange env getTime fetch now cfg 0 snap)
        = sent (refreshTodos env getTime fetch now cfg 1 1 (Some s) cfg ?w)"
    by (simp add: handlePageSizeChange_def assms(1))
  also have "\<dots> = snd (fetchTodos fetch cfg (token s) ?opts (sent ?w))"
    using assms(4,5) by (intro refreshTodos_sent) simp_all
  finally have e: "sent (handlePageSizeChange env getTime fetch now cfg 0 snap)
        = snd (fetchTodos fetch cfg (token s) ?opts (sent snap))"
    by simp
  obtain hs where "snd (fetchTodos fetch cfg (token s) ?opts (sent snap))
      = sent snap @ [request_init cfg
             (list_path (collectionSlug cfg) (fetchTodos_order ?opts) (fetchTodos_limit ?opts)
                (fetchTodos_page ?opts))
             (session_call ''GET'' (token s) VUndefined) hs]"
    using fetchTodos_sent [OF assms(3,2), where fetch = fetch and opts = ?opts
        and reqs = "sent snap"]
    by (elim exE)
  then show ?thesis
    by (simp only: e o map_append list.map url_request_init)
qed

lemma handleDeleteTodo_sent:
  assumes "session snap = Some s"
    and "fst (hasStoredSessionToken env cfg (storage snap))"
    and "\<not> isSessionExpired getTime now (Some s)"
    and "\<not> isSessionExpired getTime now' (Some s)"
    and "fst (deleteTodo fetch cfg (token s) todoId (sent snap)) = Inr ()"
    and "todoMeta snap = Some m"
  shows "sent (handleDeleteTodo env getTime fetch now now' cfg True todoId snap)
         = snd (fetchTodos fetch cfg (token s)
                  \<lparr>ListOptions.page =
                     Some (if length (todos snap) \<le> 1 \<and> PaginationMeta.page m > 1
                           then PaginationMeta.page m - 1
                           else if PaginationMeta.page m \<noteq> 0 then PaginationMeta.page m else 1),
                   ListOptions.limit = Some (todoPageSize snap), order = Some ''desc''\<rparr>
                  (snd (deleteTodo fetch cfg (token s) todoId (sent snap))))"
proof -
  obtain b where d: "deleteTodo fetch cfg (token s) todoId (sent snap) = (Inr (), b)"
    using assms(5) by (cases "deleteTodo fetch cfg (token s) todoId (sent snap)") simp
  define w2 where "w2 = snap\<lparr>todoBusyId := Some todoId, error := None, status := None\<rparr>"
  define w3 where "w3 = (if activeEditId snap = Some todoId
                         then w2\<lparr>sent := b, activeEditId := None\<rparr> else w2\<lparr>sent := b\<rparr>)"
  define nextPage where "nextPage =
    (if length (todos snap) \<le> 1 \<and> PaginationMeta.page m > 1 then PaginationMeta.page m - 1
     else if PaginationMeta.page m \<noteq> 0 then PaginationMeta.page m else 1)"
  have st: "storage w3 = storage snap" and se: "sent w3 = b"
    by (simp_all add: w3_def w2_def)
  have e: "ensureActiveSession env getTime now cfg (Some s)
             ''Access required. Request access.'' snap = (Some s, snap)"
    by (rule ensureActiveSession_passes [OF assms(2,3)])
  have "handleDeleteTodo env getTime fetch now now' cfg True todoId snap
        = (refreshTodos env getTime fetch now' cfg nextPage (todoPageSize snap) (Some s) cfg w3)
            \<lparr>status := Some ''Record archived.'', todoBusyId := None\<rparr>"
    using d assms(1,6)
    by (simp add: handleDeleteTodo_def e Let_def w2_def w3_def nextPage_def)
  then have "sent (handleDeleteTodo env getTime fetch now now' cfg True todoId snap)
        = sent (refreshTodos env getTime fetch now' cfg nextPage (todoPageSize snap) (Some s) cfg w3)"
    by simp
  also have "\<dots> = snd (fetchTodos fetch cfg (token s)
                  \<lparr>ListOptions.page = Some nextPage, ListOptions.limit = Some (todoPageSize snap),
                   order = Some ''desc''\<rparr> (sent w3))"
    using assms(2,4) st by (intro refreshTodos_sent) simp_all
  finally show ?thesis
    using d by (simp add: se nextPage_def)
qed

lemma only_item_on_page:
  "todoId \<in> item_id ` set ts \<Longrightarrow> (length ts \<le> 1) = (map item_id ts = [todoId])"
  by (cases ts) auto

text \<open>
  C7. Take a delete of a record shown on the current page: the session check passes,
  the user confirms, the delete call returns, and the list is re-read while the session
  is still valid. The current page is \<open>todoMeta.page\<close>, at least 1. Then exactly two
  requests are sent, the delete and one list call, and the list call asks for the
  previous page when the deleted record was the only item on the page and the page is
  greater than 1, and for the current page in every other case.
\<close>

theorem delete_relists_previous_page_when_page_emptied:
  assumes "session snap = Some s" and "token s \<noteq> []" and "collectionSlug cfg \<noteq> []"
    and "fst (hasStoredSessionToken env cfg (storage snap))"
    and "\<not> isSessionExpired getTime now (Some s)"
    and "\<not> isSessionExpired getTime now' (Some s)"
    and "fst (deleteTodo fetch cfg (token s) todoId (sent snap)) = Inr ()"
    and "todoMeta snap = Some m" and "1 \<le> PaginationMeta.page m"
    and "todoId \<in> item_id ` set (todos snap)"
  shows "map url (sent (handleDeleteTodo env getTime fetch now now' cfg True todoId snap))
         = map url (sent snap)
           @ [request_url cfg (record_path (collectionSlug cfg) todoId),
              request_url cfg
                (list_path (collectionSlug cfg) ''desc''
                   (min (max (if todoPageSize snap \<noteq> 0 then todoPageSize snap else 10) 1) 100)
                   (if map item_id (todos snap) = [todoId] \<and> 1 < PaginationMeta.page m
                    then PaginationMeta.page m - 1 else PaginationMeta.page m))]"
proof -
  define n where "n = (if map item_id (todos snap) = [todoId] \<and> 1 < PaginationMeta.page m
                       then PaginationMeta.page m - 1 else PaginationMeta.page m)"
  let ?opts = "\<lparr>ListOptions.page = Some n, ListOptions.limit = Some (todoPageSize snap),
                order = Some ''desc''\<rparr>"
  have next_page: "(if length (todos snap) \<le> 1 \<and> PaginationMeta.page m > 1
                    then PaginationMeta.page m - 1
                    else if PaginationMeta.page m \<noteq> 0 then PaginationMeta.page m else 1) = n"
    using assms(9) only_item_on_page [OF assms(10)] by (simp add: n_def)
  have "1 \<le> n"
    using assms(9) by (simp add: n_def)
  then have pg: "fetchTodos_page ?opts = n"
    by (simp add: fetchTodos_page_def)
  have lim: "fetchTodos_limit ?opts
             = min (max (if todoPageSize snap \<noteq> 0 then todoPageSize snap else 10) 1) 100"
    by (simp add: fetchTodos_limit_def)
  have ord: "fetchTodos_order ?opts = ''desc''"
    by (simp add: fetchTodos_order_def)
  obtain hs where del: "snd (deleteTodo fetch cfg (token s) todoId (sent snap))
      = sent snap @ [request_init cfg (record_path (collectionSlug cfg) todoId)
                       (session_call ''DELETE'' (token s) VUndefined) hs]"
    using deleteTodo_sent [OF assms(3,2), where fetch = fetch and todoId = todoId
        and reqs = "sent snap"]
    by (elim exE)
  obtain hs' where lst: "snd (fetchTodos fetch cfg (token s) ?opts
                               (snd (deleteTodo fetch cfg (token s) todoId (sent snap))))
      = snd (deleteTodo fetch cfg (token s) todoId (sent snap))
        @ [request_init cfg
             (list_path (collectionSlug cfg) (fetchTodos_order ?opts) (fetchTodos_limit ?opts)
                (fetchTodos_page ?opts))
             (session_call ''GET'' (token s) VUndefined) hs']"
    using fetchTodos_sent [OF assms(3,2), where fetch = fetch and opts = ?opts
        and reqs = "snd (deleteTodo fetch cfg (token s) todoId (sent snap))"]
    by (elim exE)
  have "sent (handleDeleteTodo env getTime fetch now now' cfg True todoId snap)
        = snd (fetchTodos fetch cfg (token s) ?opts
                 (snd (deleteTodo fetch cfg (token s) todoId (sent snap))))"
    using handleDeleteTodo_sent [OF assms(1,4,5,6,7,8)] by (simp only: next_page)
  also have "\<dots> = snd (deleteTodo fetch cfg (token s) todoId (sent snap))
        @ [request_init cfg
             (list_path (collectionSlug cfg) ''desc''
                (min (max (if todoPageSize snap \<noteq> 0 then todoPageSize snap else 10) 1) 100) n)
             (session_call ''GET'' (token s) VUndefined) hs']"
    by (simp only: lst pg lim ord)
  also have "\<dots> = (sent snap @ [request_init cfg (record_path (collectionSlug cfg) todoId)
                                   (session_call ''DELETE'' (token s) VUndefined) hs])
        @ [request_init cfg
             (list_path (collectionSlug cfg) ''desc''
                (min (max (if todoPageSize snap \<noteq> 0 then todoPageSize snap else 10) 1) 100) n)
             (session_call ''GET'' (token s) VUndefined) hs']"
    by (simp only: del)
  finally have "map url (sent (handleDeleteTodo env getTime fetch now now' cfg True todoId snap))
        = map url (sent snap)
          @ [request_url cfg (record_path (collectionSlug cfg) todoId),
             request_url cfg
               (list_path (collectionSlug cfg) ''desc''
                  (min (max (if todoPageSize snap \<noteq> 0 then todoPageSize snap else 10) 1) 100) n)]"
    by (simp only: map_append list.map url_request_init append_assoc append_Cons append_Nil)
  then show ?thesis
    by (simp only: n_def)
qed

lemma example_session_headers:
  "request_headers example_config (session_call m ''tok'' VUndefined)
   = Inr [''Accept'' \<mapsto> ''application/json'', ''Authorization'' \<mapsto> ''Bearer tok'']"
  by (simp add: request_headers_def session_call_def example_config_def Let_def)

lemma example_delete_succeeds:
  "fst (deleteTodo accepting_network example_config ''tok'' ''r1'' []) = Inr ()"
proof -
  let ?hs = "[''Accept'' \<mapsto> ''application/json'', ''Authorization'' \<mapsto> ''Bearer tok'']"
  have "jsonRequest accepting_network example_config p (session_call ''DELETE'' ''tok'' VUndefined) []
        = (Inr (VObj []),
           [request_init example_config p (session_call ''DELETE'' ''tok'' VUndefined) ?hs])" for p
    by (simp add: jsonRequest_def example_session_headers accepting_network_def read_response_def
        Response_ok_def response_data_def nullish_def Let_def)
  moreover have "collectionSlug example_config \<noteq> []"
    by (simp add: example_config_def)
  ultimately show ?thesis
    by (simp add: deleteTodo_def)
qed

lemma example_urls:
  "request_url example_config (record_path ''todos'' ''r1'')
     = ''https://reqres.in/app/collections/todos/records/r1''"
  "request_url example_config (list_path ''todos'' ''desc'' 10 2)
     = ''https://reqres.in/app/collections/todos/records?order=desc&limit=10&page=2''"
proof -
  have enc: "encodeURIComponent ''todos'' = ''todos''" "encodeURIComponent ''r1'' = ''r1''"
    by (simp_all add: encodeURIComponent_def unreserved_def)
  have dec: "String_of_int 10 = ''10''" "String_of_int 2 = ''2''"
    by (simp_all add: String_of_int_def decimal.simps)
  show "request_url example_config (record_path ''todos'' ''r1'')
     = ''https://reqres.in/app/collections/todos/records/r1''"
    by (simp add: request_url_def record_path_def records_path_def enc example_config_def
        strip_slash_def)
  show "request_url example_config (list_path ''todos'' ''desc'' 10 2)
     = ''https://reqres.in/app/collections/todos/records?order=desc&limit=10&page=2''"
    by (simp add: request_url_def list_path_def records_path_def enc dec example_config_def
        strip_slash_def)
qed

theorem delete_relists_previous_page_when_page_emptied_witness:
  "map url (sent (handleDeleteTodo example_config example_getTime accepting_network 0 1
                    example_config True ''r1'' example_app))
   = [''https://reqres.in/app/collections/todos/records/r1'',
      ''https://reqres.in/app/collections/todos/records?order=desc&limit=10&page=2'']"
proof -
  have a: "session example_app = Some example_session" "sent example_app = []"
      "todoMeta example_app
         = Some \<lparr>PaginationMeta.page = 3, PaginationMeta.limit = 10, total = 21, pages = 3\<rparr>"
      "map item_id (todos example_app) = [''r1'']" "todoPageSize example_app = 10"
    by (simp_all add: example_app_def example_todo_def)
  have b: "token example_session = ''tok''" "collectionSlug example_config = ''todos''"
    by (simp_all add: example_session_def example_config_def)
  have c: "\<not> isSessionExpired example_getTime 0 (Some example_session)"
      "\<not> isSessionExpired example_getTime 1 (Some example_session)"
    by (simp_all add: isSessionExpired_def example_getTime_session)
       (simp_all add: example_session_def)
  have d: "fst (hasStoredSessionToken example_config example_config (storage example_app))"
    by (simp add: example_app_stored)
  have e: "fst (deleteTodo accepting_network example_config (token example_session) ''r1''
                  (sent example_app)) = Inr ()"
    by (simp add: a b example_delete_succeeds)
  have f: "''r1'' \<in> item_id ` set (todos example_app)"
    by (simp add: example_app_def example_todo_def)
  from delete_relists_previous_page_when_page_emptied
    [OF a(1) _ _ d c(1) c(2) e a(3) _ f]
  show ?thesis
    by (simp add: a b example_urls)
qed

lemma handleToggleTodo_result:
  assumes "session snap = Some s"
    and "fst (hasStoredSessionToken env cfg (storage snap))"
    and "\<not> isSessionExpired getTime now (Some s)"
    and "js_get (TodoItem.data todo) ''completed'' = VBool False"
  shows "sent (handleToggleTodo env getTime fetch now cfg todo snap)
         = snd (updateTodo fetch cfg (token s) (item_id todo)
                  \<lparr>title = as_string (js_get (TodoItem.data todo) ''title''),
                   todo_notes = as_string (js_get (TodoItem.data todo) ''notes''),
                   completed = True\<rparr> (sent snap))"
    and "fst (updateTodo fetch cfg (token s) (item_id todo)
                  \<lparr>title = as_string (js_get (TodoItem.data todo) ''title''),
                   todo_notes = as_string (js_get (TodoItem.data todo) ''notes''),
                   completed = True\<rparr> (sent snap)) = Inr updated
         \<Longrightarrow> todos (handleToggleTodo env getTime fetch now cfg todo snap)
             = map (\<lambda>item. if item_id item = item_id todo then updated else item) (todos snap)"
proof -
  let ?p = "\<lparr>title = as_string (js_get (TodoItem.data todo) ''title''),
             todo_notes = as_string (js_get (TodoItem.data todo) ''notes''),
             completed = True\<rparr>"
  have obj: "nullish (TodoItem.data todo) (VObj []) = TodoItem.data todo"
    using assms(4) by (cases "TodoItem.data todo") (simp_all add: nullish_def)
  have n: "normalizeTodo (TodoItem.data todo)
           = \<lparr>title = as_string (js_get (TodoItem.data todo) ''title''),
              todo_notes = as_string (js_get (TodoItem.data todo) ''notes''),
              completed = False\<rparr>"
    by (simp add: normalizeTodo_def Let_def obj assms(4) as_string_def)
  have e: "ensureActiveSession env getTime now cfg (Some s)
             ''Access required. Request access.'' snap = (Some s, snap)"
    by (rule ensureActiveSession_passes [OF assms(2,3)])
  obtain a b where u: "updateTodo fetch cfg (token s) (item_id todo) ?p (sent snap) = (a, b)"
    by (cases "updateTodo fetch cfg (token s) (item_id todo) ?p (sent snap)")
  show "sent (handleToggleTodo env getTime fetch now cfg todo snap)
         = snd (updateTodo fetch cfg (token s) (item_id todo) ?p (sent snap))"
    using u assms(1) by (cases a) (simp_all add: handleToggleTodo_def e n Let_def)
  show "todos (handleToggleTodo env getTime fetch now cfg todo snap)
             = map (\<lambda>item. if item_id item = item_id todo then updated else item) (todos snap)"
    if "fst (updateTodo fetch cfg (token s) (item_id todo) ?p (sent snap)) = Inr updated"
    using that u assms(1) by (simp add: handleToggleTodo_def e n Let_def)
qed

text \<open>
  C8 (as amended). For a record whose data has \<open>completed: false\<close>, with a valid
  session, \<open>handleToggleTodo\<close> sends one \<open>PUT\<close> for the record whose body is
  \<open>{data: {title, notes, completed: true}}\<close>: the record's title and notes where they are
  strings (the empty string where not), and no other field of the record's data. When
  the call returns a record, that record replaces the one with the same id in the list,
  in place.
\<close>

theorem toggle_sends_title_notes_completed:
  assumes "session snap = Some s" and "token s \<noteq> []" and "collectionSlug cfg \<noteq> []"
    and "fst (hasStoredSessionToken env cfg (storage snap))"
    and "\<not> isSessionExpired getTime now (Some s)"
    and "js_get (TodoItem.data todo) ''completed'' = VBool False"
  shows "(\<exists>r. sent (handleToggleTodo env getTime fetch now cfg todo snap) = sent snap @ [r]
            \<and> url r = request_url cfg (record_path (collectionSlug cfg) (item_id todo))
            \<and> Request.http_method r = Some ''PUT''
            \<and> Request.body r
                = Some (Json (VObj [(''data'',
                     VObj [(''title'', VStr (as_string (js_get (TodoItem.data todo) ''title''))),
                           (''notes'', VStr (as_string (js_get (TodoItem.data todo) ''notes''))),
                           (''completed'', VBool True)])])))
       \<and> (\<forall>updated.
             fst (updateTodo fetch cfg (token s) (item_id todo)
                    \<lparr>title = as_string (js_get (TodoItem.data todo) ''title''),
                     todo_notes = as_string (js_get (TodoItem.data todo) ''notes''),
                     completed = True\<rparr> (sent snap)) = Inr updated
             \<longrightarrow> todos (handleToggleTodo env getTime fetch now cfg todo snap)
                 = map (\<lambda>item. if item_id item = item_id todo then updated else item)
                     (todos snap))"
proof (intro conjI allI impI)
  let ?p = "\<lparr>title = as_string (js_get (TodoItem.data todo) ''title''),
             todo_notes = as_string (js_get (TodoItem.data todo) ''notes''),
             completed = True\<rparr>"
  obtain hs where "snd (updateTodo fetch cfg (token s) (item_id todo) ?p (sent snap))
      = sent snap @ [request_init cfg (record_path (collectionSlug cfg) (item_id todo))
                       (session_call ''PUT'' (token s) (VObj [(''data'', TodoPayload_value ?p)]))
                       hs]"
    using updateTodo_sent [OF assms(3,2), where fetch = fetch and todoId = "item_id todo"
        and todo = ?p and reqs = "sent snap"]
    by (elim exE)
  then have "sent (handleToggleTodo env getTime fetch now cfg todo snap)
      = sent snap @ [request_init cfg (record_path (collectionSlug cfg) (item_id todo))
                       (session_call ''PUT'' (token s) (VObj [(''data'', TodoPayload_value ?p)]))
                       hs]"
    by (simp only: handleToggleTodo_result(1) [OF assms(1,4,5,6)])
  then show "\<exists>r. sent (handleToggleTodo env getTime fetch now cfg todo snap) = sent snap @ [r]
            \<and> url r = request_url cfg (record_path (collectionSlug cfg) (item_id todo))
            \<and> Request.http_method r = Some ''PUT''
            \<and> Request.body r
                = Some (Json (VObj [(''data'',
                     VObj [(''title'', VStr (as_string (js_get (TodoItem.data todo) ''title''))),
                           (''notes'', VStr (as_string (js_get (TodoItem.data todo) ''notes''))),
                           (''completed'', VBool True)])]))"
    by (simp add: TodoPayload_value_def)
next
  fix updated
  assume "fst (updateTodo fetch cfg (token s) (item_id todo)
                    \<lparr>title = as_string (js_get (TodoItem.data todo) ''title''),
                     todo_notes = as_string (js_get (TodoItem.data todo) ''notes''),
                     completed = True\<rparr> (sent snap)) = Inr updated"
  then show "todos (handleToggleTodo env getTime fetch now cfg todo snap)
                 = map (\<lambda>item. if item_id item = item_id todo then updated else item)
                     (todos snap)"
    by (rule handleToggleTodo_result(2) [OF assms(1,4,5,6)])
qed

lemma example_put_headers:
  "request_headers example_config (session_call ''PUT'' ''tok'' (VObj kvs))
   = Inr [''Accept'' \<mapsto> ''application/json'', ''Content-Type'' \<mapsto> ''application/json'',
          ''Authorization'' \<mapsto> ''Bearer tok'']"
  by (simp add: request_headers_def session_call_def example_config_def Let_def)

lemma example_update:
  "fst (updateTodo updating_network example_config ''tok'' ''r1'' p [])
   = Inr \<lparr>item_id = ''r1'',
          TodoItem.data = VObj [(''title'', VStr ''Buy milk''), (''notes'', VStr ''''),
                                (''completed'', VBool True)],
          created_at = ''2029-12-01T00:00:00.000Z'',
          updated_at = ''2029-12-02T09:30:00.000Z'',
          app_user_id = Some ''u1''\<rparr>"
proof -
  have "jsonRequest updating_network example_config q (session_call ''PUT'' ''tok'' (VObj kvs)) []
        = (Inr example_reply,
           [request_init example_config q (session_call ''PUT'' ''tok'' (VObj kvs))
              [''Accept'' \<mapsto> ''application/json'', ''Content-Type'' \<mapsto> ''application/json'',
               ''Authorization'' \<mapsto> ''Bearer tok'']])" for q kvs
    by (simp add: jsonRequest_def example_put_headers updating_network_def read_response_def
        Response_ok_def response_data_def nullish_def example_reply_def Let_def)
  moreover have "collectionSlug example_config \<noteq> []"
    by (simp add: example_config_def)
  moreover have "as_TodoItem (js_get example_reply ''data'')
      = \<lparr>item_id = ''r1'',
          TodoItem.data = VObj [(''title'', VStr ''Buy milk''), (''notes'', VStr ''''),
                                (''completed'', VBool True)],
          created_at = ''2029-12-01T00:00:00.000Z'',
          updated_at = ''2029-12-02T09:30:00.000Z'',
          app_user_id = Some ''u1''\<rparr>"
    by (simp add: as_TodoItem_def example_reply_def as_string_def)
  ultimately show ?thesis
    by (simp add: updateTodo_def)
qed

lemma example_toggle_facts:
  "session example_app = Some example_session" "sent example_app = []"
  "todos example_app = [example_todo]"
  "token example_session = ''tok''" "collectionSlug example_config = ''todos''"
  "item_id example_todo = ''r1''"
  "js_get (TodoItem.data example_todo) ''completed'' = VBool False"
  "js_get (TodoItem.data example_todo) ''title'' = VStr ''Buy milk''"
  "js_get (TodoItem.data example_todo) ''notes'' = VStr ''''"
  "js_get (TodoItem.data example_todo) ''priority'' = VNum 3"
  "\<not> isSessionExpired example_getTime 0 (Some example_session)"
  by (simp_all add: example_app_def example_session_def example_config_def example_todo_def
      isSessionExpired_def example_getTime_def Date_getTime_def example_instant_def)

theorem toggle_sends_title_notes_completed_witness:
  "(\<exists>r. sent (handleToggleTodo example_config example_getTime updating_network 0 example_config
                  example_todo example_app) = [r]
        \<and> url r = ''https://reqres.in/app/collections/todos/records/r1''
        \<and> Request.http_method r = Some ''PUT''
        \<and> Request.body r
            = Some (Json (VObj [(''data'',
                 VObj [(''title'', VStr ''Buy milk''), (''notes'', VStr ''''),
                       (''completed'', VBool True)])])))
   \<and> todos (handleToggleTodo example_config example_getTime updating_network 0 example_config
               example_todo example_app)
     = [\<lparr>item_id = ''r1'',
         TodoItem.data = VObj [(''title'', VStr ''Buy milk''), (''notes'', VStr ''''),
                               (''completed'', VBool True)],
         created_at = ''2029-12-01T00:00:00.000Z'',
         updated_at = ''2029-12-02T09:30:00.000Z'',
         app_user_id = Some ''u1''\<rparr>]"
proof -
  have d: "fst (hasStoredSessionToken example_config example_config (storage example_app))"
    by (simp add: example_app_stored)
  note t = toggle_sends_title_notes_completed
    [OF example_toggle_facts(1) _ _ d example_toggle_facts(11) example_toggle_facts(7),
     where fetch = updating_network]
  have t': "token example_session \<noteq> []" "collectionSlug example_config \<noteq> []"
    by (simp_all add: example_toggle_facts)
  from t [OF t'] show ?thesis
    by (simp add: example_toggle_facts example_urls example_update as_string_def)
qed

text \<open>
  C8 as stated fails: the record below carries the extension field \<open>priority\<close>; the
  replacement payload sent for it does not.
\<close>

theorem toggle_drops_extension_fields_counterexample:
  "map Request.body
     (sent (handleToggleTodo example_config example_getTime accepting_network 0 example_config
              example_todo example_app))
   = [Some (Json (VObj [(''data'',
        VObj [(''title'', VStr ''Buy milk''), (''notes'', VStr ''''),
              (''completed'', VBool True)])]))]
   \<and> js_get (TodoItem.data example_todo) ''priority'' = VNum 3
   \<and> js_get (VObj [(''title'', VStr ''Buy milk''), (''notes'', VStr ''''),
                    (''completed'', VBool True)]) ''priority'' = VUndefined"
proof -
  have d: "fst (hasStoredSessionToken example_config example_config (storage example_app))"
    by (simp add: example_app_stored)
  have "jsonRequest accepting_network example_config q (session_call ''PUT'' ''tok'' (VObj kvs)) []
        = (Inr (VObj []),
           [request_init example_config q (session_call ''PUT'' ''tok'' (VObj kvs))
              [''Accept'' \<mapsto> ''application/json'', ''Content-Type'' \<mapsto> ''application/json'',
               ''Authorization'' \<mapsto> ''Bearer tok'']])" for q kvs
    by (simp add: jsonRequest_def example_put_headers accepting_network_def read_response_def
        Response_ok_def response_data_def nullish_def Let_def)
  then have "map Request.body (snd (updateTodo accepting_network example_config ''tok'' ''r1'' p []))
        = [Some (Json (VObj [(''data'', TodoPayload_value p)]))]" for p
    by (simp add: updateTodo_def example_toggle_facts)
  with handleToggleTodo_result(1)
    [OF example_toggle_facts(1) d example_toggle_facts(11) example_toggle_facts(7),
     where fetch = accepting_network]
  show ?thesis
    by (simp add: example_toggle_facts TodoPayload_value_def as_string_def)
qed

end
